theory Spec2Isabelle
  imports Main "HOL-Library.Word" "HOL-Library.Sublist" "HOL-Library.List_Lexorder"
    "HOL-Library.Char_ord"
begin

unbundle bit_operations_syntax

section \<open>The currency record (internal/model/models.go)\<close>

text \<open>
  A \<open>uuid.UUID\<close> is sixteen bytes, read here as one 128-bit word; \<open>uuid.Nil\<close> is the
  word 0. A \<open>time.Time\<close> is an instant in seconds of Unix time; the zero value of
  \<open>time.Time\<close> is the first second of year 1. Go's \<open>int\<close> fields hold values that no
  operation of the service does arithmetic on, so they are mathematical integers.
\<close>

type_synonym uuid = "128 word"
type_synonym timestamp = int

definition uuid_Nil :: uuid where
  "uuid_Nil = 0"

definition zero_time :: timestamp where
  "zero_time = - 62135596800"

record Currency =
  ID :: uuid
  Code :: string
  Description :: string
  AmountDisplayFormat :: string
  HtmlEncodedSymbol :: string
  Factor :: int
  CreatedAt :: timestamp
  UpdatedAt :: timestamp
  CreatedBy :: uuid

section \<open>Text helpers of the Go standard library\<close>

text \<open>\<open>%d\<close> of \<open>fmt.Sprintf\<close>: decimal digits, with a minus sign below zero.\<close>

definition digit_char :: "nat \<Rightarrow> char" where
  "digit_char d = char_of (48 + d)"

function nat_dec :: "nat \<Rightarrow> string" where
  "nat_dec n = (if n < 10 then [digit_char n] else nat_dec (n div 10) @ [digit_char (n mod 10)])"
  by pat_completeness auto
termination
  by (relation "measure id") auto

declare nat_dec.simps [simp del]

definition itoa :: "int \<Rightarrow> string" where
  "itoa i = (if i < 0 then CHR ''-'' # nat_dec (nat (- i)) else nat_dec (nat i))"

text \<open>\<open>UUID.String()\<close>: thirty-two lower-case hexadecimal digits in groups 8-4-4-4-12.\<close>

definition hex_char :: "nat \<Rightarrow> char" where
  "hex_char d = (if d < 10 then char_of (48 + d) else char_of (87 + d))"

definition uuid_nibble :: "uuid \<Rightarrow> nat \<Rightarrow> char" where
  "uuid_nibble u i = hex_char (unat (drop_bit (4 * (31 - i)) u AND 15))"

definition uuid_String :: "uuid \<Rightarrow> string" where
  "uuid_String u =
     map (uuid_nibble u) [0..<8] @ ''-'' @ map (uuid_nibble u) [8..<12] @ ''-'' @
     map (uuid_nibble u) [12..<16] @ ''-'' @ map (uuid_nibble u) [16..<20] @ ''-'' @
     map (uuid_nibble u) [20..<32]"

text \<open>\<open>strings.Contains\<close>: the second string occurs as a contiguous run of the first.\<close>

fun Contains :: "string \<Rightarrow> string \<Rightarrow> bool" where
  "Contains [] sub = (sub = [])"
| "Contains (c # cs) sub = (prefix sub (c # cs) \<or> Contains cs sub)"

text \<open>
  \<open>strings.ToUpper\<close>, on ASCII letters; bytes outside \<open>a\<close>..\<open>z\<close> are left as they are.
\<close>

definition upper_char :: "char \<Rightarrow> char" where
  "upper_char c =
     (let n = (of_char c :: nat) in
      if 97 \<le> n \<and> n \<le> 122 then char_of (n - 32) else c)"

definition ToUpper :: "string \<Rightarrow> string" where
  "ToUpper s = map upper_char s"

section \<open>The world outside the service: database, cache, clock\<close>

text \<open>
  The service holds two handles: a GORM connection to the PostgreSQL table
  \<open>currencies\<close> and a Redis client. Their state is one record that every operation takes
  and returns. A command sent to either server can fail in transport; the outcomes of
  the coming commands are the two fault schedules (\<open>True\<close>: the next command fails; an
  exhausted schedule: no more failures). The trace lists, in order, each repository
  method called and each Redis command issued.
\<close>

datatype event =
    CacheGet string
  | CacheSet string string
  | CacheDel "string list"
  | CacheKeys string
  | StoreCreate
  | StoreGetByID uuid
  | StoreGetByCode string
  | StoreGetAll int int
  | StoreUpdate uuid
  | StoreDelete uuid
  | StoreCreateBatch
  | StoreGetByCodes "string list"
  | StoreSearchByName string
  | StoreGetCurrenciesByFactor int
  | StoreGetCount

fun is_cache_event :: "event \<Rightarrow> bool" where
  "is_cache_event (CacheGet k) = True"
| "is_cache_event (CacheSet k v) = True"
| "is_cache_event (CacheDel ks) = True"
| "is_cache_event (CacheKeys p) = True"
| "is_cache_event e = False"

definition is_store_event :: "event \<Rightarrow> bool" where
  "is_store_event e = (\<not> is_cache_event e)"

record world =
  rows :: "Currency list"
  entries :: "(string \<times> string \<times> int) list"
  clock :: int
  db_faults :: "bool list"
  redis_faults :: "bool list"
  uuid_source :: "nat \<Rightarrow> uuid"
  uuid_next :: nat
  trace :: "event list"

definition emit :: "event \<Rightarrow> world \<Rightarrow> world" where
  "emit e w = w\<lparr>trace := trace w @ [e]\<rparr>"

text \<open>Time passing between two requests.\<close>

definition advance :: "int \<Rightarrow> world \<Rightarrow> world" where
  "advance d w = w\<lparr>clock := clock w + d\<rparr>"

definition redis_roundtrip :: "world \<Rightarrow> bool \<times> world" where
  "redis_roundtrip w =
     (case redis_faults w of
        [] \<Rightarrow> (False, w)
      | f # fs \<Rightarrow> (f, w\<lparr>redis_faults := fs\<rparr>))"

definition db_roundtrip :: "world \<Rightarrow> bool \<times> world" where
  "db_roundtrip w =
     (case db_faults w of
        [] \<Rightarrow> (False, w)
      | f # fs \<Rightarrow> (f, w\<lparr>db_faults := fs\<rparr>))"

text \<open>Whether the next command sent to a server fails, by its schedule.\<close>

definition fails_next :: "bool list \<Rightarrow> bool" where
  "fails_next fs = (case fs of [] \<Rightarrow> False | f # rest \<Rightarrow> f)"

text \<open>\<open>uuid.New()\<close>: the next identifier of the random source.\<close>

definition uuid_New :: "world \<Rightarrow> uuid \<times> world" where
  "uuid_New w = (uuid_source w (uuid_next w), w\<lparr>uuid_next := Suc (uuid_next w)\<rparr>)"

section \<open>The Redis commands the service issues\<close>

text \<open>
  An entry is a key, a payload and the instant it expires; an expired entry is gone for
  every command. \<open>GET\<close> answers \<open>redis.Nil\<close> for an absent key.
\<close>

datatype redis_error = RedisNil | RedisDown

definition cache_lookup :: "world \<Rightarrow> string \<Rightarrow> string option" where
  "cache_lookup w k =
     (case map_of (entries w) k of
        None \<Rightarrow> None
      | Some (v, expiry) \<Rightarrow> if clock w < expiry then Some v else None)"

definition redis_Get :: "world \<Rightarrow> string \<Rightarrow> (redis_error + string) \<times> world" where
  "redis_Get w k =
     (let (failed, w1) = redis_roundtrip (emit (CacheGet k) w) in
      if failed then (Inl RedisDown, w1)
      else case cache_lookup w1 k of
             None \<Rightarrow> (Inl RedisNil, w1)
           | Some v \<Rightarrow> (Inr v, w1))"

definition redis_Set :: "world \<Rightarrow> string \<Rightarrow> string \<Rightarrow> int \<Rightarrow> world" where
  "redis_Set w k v ttl =
     (let (failed, w1) = redis_roundtrip (emit (CacheSet k v) w) in
      if failed then w1
      else w1\<lparr>entries := (k, v, clock w1 + ttl) # filter (\<lambda>e. fst e \<noteq> k) (entries w1)\<rparr>)"

definition redis_Del :: "world \<Rightarrow> string list \<Rightarrow> world" where
  "redis_Del w ks =
     (let (failed, w1) = redis_roundtrip (emit (CacheDel ks) w) in
      if failed then w1
      else w1\<lparr>entries := filter (\<lambda>e. fst e \<notin> set ks) (entries w1)\<rparr>)"

text \<open>
  \<open>KEYS pattern\<close>: the glob patterns of Redis, with \<open>*\<close> for any run of characters and
  \<open>?\<close> for one (the one pattern of the service has no bracket and no backslash).
\<close>

fun glob_match :: "string \<Rightarrow> string \<Rightarrow> bool" where
  "glob_match [] s = (s = [])"
| "glob_match (p # ps) [] = (p = CHR ''*'' \<and> glob_match ps [])"
| "glob_match (p # ps) (c # cs) =
     (if p = CHR ''*'' then glob_match ps (c # cs) \<or> glob_match (p # ps) cs
      else (p = CHR ''?'' \<or> p = c) \<and> glob_match ps cs)"

definition redis_Keys :: "world \<Rightarrow> string \<Rightarrow> (redis_error + string list) \<times> world" where
  "redis_Keys w pattern =
     (let (failed, w1) = redis_roundtrip (emit (CacheKeys pattern) w) in
      if failed then (Inl RedisDown, w1)
      else (Inr (map fst (filter (\<lambda>e. clock w1 < snd (snd e) \<and> glob_match pattern (fst e))
                           (entries w1))), w1))"

section \<open>GORM on the PostgreSQL table\<close>

text \<open>
  What GORM and PostgreSQL do with the statements of the repository, from the tags and
  the hook of \<open>model.Currency\<close>: a primary key on \<open>id\<close>, a unique \<open>code\<close>, the
  \<open>varchar\<close> lengths, the defaults of \<open>amount_display_format\<close> and \<open>factor\<close>, the
  automatic timestamps, and the hook that draws an identifier.
\<close>

datatype gorm_error = ErrRecordNotFound | DriverError string

fun gorm_text :: "gorm_error \<Rightarrow> string" where
  "gorm_text ErrRecordNotFound = ''record not found''"
| "gorm_text (DriverError m) = m"

definition bad_connection :: gorm_error where
  "bad_connection = DriverError ''driver: bad connection''"

definition unique_violation :: gorm_error where
  "unique_violation =
     DriverError ''ERROR: duplicate key value violates unique constraint (SQLSTATE 23505)''"

definition too_long :: "nat \<Rightarrow> gorm_error" where
  "too_long n =
     DriverError (''ERROR: value too long for type character varying('' @ nat_dec n @
                  '') (SQLSTATE 22001)'')"

definition check_lengths :: "Currency \<Rightarrow> gorm_error option" where
  "check_lengths c =
     (if length (Code c) > 3 then Some (too_long 3)
      else if length (Description c) > 255 then Some (too_long 255)
      else if length (AmountDisplayFormat c) > 50 then Some (too_long 50)
      else if length (HtmlEncodedSymbol c) > 50 then Some (too_long 50)
      else None)"

definition pg_insert :: "Currency list \<Rightarrow> Currency \<Rightarrow> gorm_error + Currency list" where
  "pg_insert rs c =
     (case check_lengths c of
        Some e \<Rightarrow> Inl e
      | None \<Rightarrow>
          if \<exists>r \<in> set rs. ID r = ID c \<or> Code r = Code c then Inl unique_violation
          else Inr (rs @ [c]))"

text \<open>The hook \<open>BeforeCreate\<close> of models.go.\<close>

definition BeforeCreate :: "world \<Rightarrow> Currency \<Rightarrow> Currency \<times> world" where
  "BeforeCreate w c =
     (if ID c = uuid_Nil then (let (u, w1) = uuid_New w in (c\<lparr>ID := u\<rparr>, w1))
      else (c, w))"

definition fill_defaults :: "timestamp \<Rightarrow> Currency \<Rightarrow> Currency" where
  "fill_defaults now c =
     c\<lparr>AmountDisplayFormat :=
         (if AmountDisplayFormat c = [] then ''###,###.##'' else AmountDisplayFormat c),
       Factor := (if Factor c = 0 then 100 else Factor c),
       CreatedAt := (if CreatedAt c = zero_time then now else CreatedAt c),
       UpdatedAt := (if UpdatedAt c = zero_time then now else UpdatedAt c)\<rparr>"

text \<open>\<open>db.Create(currency)\<close>: the hook, the defaults, then one \<open>INSERT\<close>.\<close>

definition gorm_Create :: "world \<Rightarrow> Currency \<Rightarrow> (gorm_error + Currency) \<times> world" where
  "gorm_Create w c =
     (let (c1, w1) = BeforeCreate w c;
          c2 = fill_defaults (clock w1) c1;
          (failed, w2) = db_roundtrip w1
      in if failed then (Inl bad_connection, w2)
         else case pg_insert (rows w2) c2 of
                Inl e \<Rightarrow> (Inl e, w2)
              | Inr rs \<Rightarrow> (Inr c2, w2\<lparr>rows := rs\<rparr>))"

text \<open>\<open>db.First(&currency, cond)\<close>: the matching row of least primary key.\<close>

definition gorm_First :: "world \<Rightarrow> (Currency \<Rightarrow> bool) \<Rightarrow> (gorm_error + Currency) \<times> world" where
  "gorm_First w cond =
     (let (failed, w1) = db_roundtrip w in
      if failed then (Inl bad_connection, w1)
      else case find cond (sort_key ID (rows w1)) of
             None \<Rightarrow> (Inl ErrRecordNotFound, w1)
           | Some c \<Rightarrow> (Inr c, w1))"

text \<open>
  \<open>db.Model(currency).Where("id = ?", id).Updates(currency)\<close>: the fields of the
  struct that are not zero overwrite those of each row with that id, \<open>updated_at\<close>
  becomes the present instant, and the count of rows touched is not looked at.
\<close>

definition assign_nonzero :: "timestamp \<Rightarrow> Currency \<Rightarrow> Currency \<Rightarrow> Currency" where
  "assign_nonzero now c r =
     r\<lparr>Code := (if Code c = [] then Code r else Code c),
       Description := (if Description c = [] then Description r else Description c),
       AmountDisplayFormat :=
         (if AmountDisplayFormat c = [] then AmountDisplayFormat r else AmountDisplayFormat c),
       HtmlEncodedSymbol :=
         (if HtmlEncodedSymbol c = [] then HtmlEncodedSymbol r else HtmlEncodedSymbol c),
       Factor := (if Factor c = 0 then Factor r else Factor c),
       CreatedAt := (if CreatedAt c = zero_time then CreatedAt r else CreatedAt c),
       UpdatedAt := now,
       CreatedBy := (if CreatedBy c = uuid_Nil then CreatedBy r else CreatedBy c)\<rparr>"

definition pg_update :: "timestamp \<Rightarrow> Currency list \<Rightarrow> Currency \<Rightarrow> gorm_error + Currency list" where
  "pg_update now rs c =
     (if \<forall>r \<in> set rs. ID r \<noteq> ID c then Inr rs
      else case check_lengths c of
             Some e \<Rightarrow> Inl e
           | None \<Rightarrow>
               if Code c \<noteq> [] \<and> (\<exists>r \<in> set rs. ID r \<noteq> ID c \<and> Code r = Code c)
               then Inl unique_violation
               else Inr (map (\<lambda>r. if ID r = ID c then assign_nonzero now c r else r) rs))"

definition gorm_Updates :: "world \<Rightarrow> Currency \<Rightarrow> (gorm_error + Currency) \<times> world" where
  "gorm_Updates w c =
     (let (failed, w1) = db_roundtrip w in
      if failed then (Inl bad_connection, w1)
      else case pg_update (clock w1) (rows w1) c of
             Inl e \<Rightarrow> (Inl e, w1)
           | Inr rs \<Rightarrow> (Inr (c\<lparr>UpdatedAt := clock w1\<rparr>), w1\<lparr>rows := rs\<rparr>))"

text \<open>\<open>db.Delete(&model.Currency{}, "id = ?", id)\<close>: answers the count of rows removed.\<close>

definition gorm_Delete :: "world \<Rightarrow> uuid \<Rightarrow> (gorm_error + nat) \<times> world" where
  "gorm_Delete w i =
     (let (failed, w1) = db_roundtrip w in
      if failed then (Inl bad_connection, w1)
      else (Inr (length (filter (\<lambda>r. ID r = i) (rows w1))),
            w1\<lparr>rows := filter (\<lambda>r. ID r \<noteq> i) (rows w1)\<rparr>))"

text \<open>\<open>query.Find(&currencies)\<close> under \<open>Order("code ASC")\<close>, a condition, a limit and an offset.\<close>

definition gorm_Find ::
  "world \<Rightarrow> (Currency \<Rightarrow> bool) \<Rightarrow> nat option \<Rightarrow> nat option \<Rightarrow> (gorm_error + Currency list) \<times> world"
where
  "gorm_Find w cond lim off =
     (let (failed, w1) = db_roundtrip w in
      if failed then (Inl bad_connection, w1)
      else
        let sorted = sort_key Code (filter cond (rows w1));
            skipped = (case off of None \<Rightarrow> sorted | Some k \<Rightarrow> drop k sorted);
            taken = (case lim of None \<Rightarrow> skipped | Some k \<Rightarrow> take k skipped)
        in (Inr taken, w1))"


section \<open>The repository (package repository)\<close>

text \<open>
  A Go \<open>error\<close> of this program is its message: every error is made by \<open>fmt.Errorf\<close>
  and only ever read through \<open>Error()\<close>. A method that returns \<open>(value, error)\<close> answers
  \<open>Inl message\<close> or \<open>Inr value\<close>; one that fills in the struct it was given answers the
  struct as it is afterwards.
\<close>

type_synonym error = string

definition Create :: "world \<Rightarrow> Currency \<Rightarrow> (error + Currency) \<times> world" where
  "Create w currency =
     (case gorm_Create (emit StoreCreate w) currency of
        (Inl e, w1) \<Rightarrow> (Inl (''failed to create currency: '' @ gorm_text e), w1)
      | (Inr c, w1) \<Rightarrow> (Inr c, w1))"

definition GetByID :: "world \<Rightarrow> uuid \<Rightarrow> (error + Currency) \<times> world" where
  "GetByID w i =
     (case gorm_First (emit (StoreGetByID i) w) (\<lambda>c. ID c = i) of
        (Inl e, w1) \<Rightarrow>
          (if e = ErrRecordNotFound then Inl (''currency not found with id '' @ uuid_String i)
           else Inl (''failed to get currency by id: '' @ gorm_text e), w1)
      | (Inr c, w1) \<Rightarrow> (Inr c, w1))"

definition GetByCode :: "world \<Rightarrow> string \<Rightarrow> (error + Currency) \<times> world" where
  "GetByCode w code =
     (case gorm_First (emit (StoreGetByCode code) w) (\<lambda>c. Code c = code) of
        (Inl e, w1) \<Rightarrow>
          (if e = ErrRecordNotFound then Inl (''currency not found with code '' @ code)
           else Inl (''failed to get currency by code: '' @ gorm_text e), w1)
      | (Inr c, w1) \<Rightarrow> (Inr c, w1))"

definition GetAll :: "world \<Rightarrow> int \<Rightarrow> int \<Rightarrow> (error + Currency list) \<times> world" where
  "GetAll w limit offset =
     (case gorm_Find (emit (StoreGetAll limit offset) w) (\<lambda>c. True)
             (if limit > 0 then Some (nat limit) else None)
             (if offset > 0 then Some (nat offset) else None) of
        (Inl e, w1) \<Rightarrow> (Inl (''failed to get all currencies: '' @ gorm_text e), w1)
      | (Inr cs, w1) \<Rightarrow> (Inr cs, w1))"

definition Update :: "world \<Rightarrow> Currency \<Rightarrow> (error + Currency) \<times> world" where
  "Update w currency =
     (case gorm_Updates (emit (StoreUpdate (ID currency)) w) currency of
        (Inl e, w1) \<Rightarrow> (Inl (''failed to update currency: '' @ gorm_text e), w1)
      | (Inr c, w1) \<Rightarrow> (Inr c, w1))"

definition Delete :: "world \<Rightarrow> uuid \<Rightarrow> (error + unit) \<times> world" where
  "Delete w i =
     (case gorm_Delete (emit (StoreDelete i) w) i of
        (Inl e, w1) \<Rightarrow> (Inl (''failed to delete currency: '' @ gorm_text e), w1)
      | (Inr rowsAffected, w1) \<Rightarrow>
          (if rowsAffected = 0 then Inl (''currency not found with id '' @ uuid_String i)
           else Inr (), w1))"

definition GetCurrenciesByFactor :: "world \<Rightarrow> int \<Rightarrow> (error + Currency list) \<times> world" where
  "GetCurrenciesByFactor w factor =
     (case gorm_Find (emit (StoreGetCurrenciesByFactor factor) w) (\<lambda>c. Factor c = factor)
             None None of
        (Inl e, w1) \<Rightarrow> (Inl (''failed to get currencies by factor: '' @ gorm_text e), w1)
      | (Inr cs, w1) \<Rightarrow> (Inr cs, w1))"

definition GetCount :: "world \<Rightarrow> (error + int) \<times> world" where
  "GetCount w =
     (let (failed, w1) = db_roundtrip (emit StoreGetCount w) in
      if failed then (Inl (''failed to get currency count: '' @ gorm_text bad_connection), w1)
      else (Inr (int (length (rows w1))), w1))"



text \<open>
  \<open>description ILIKE pattern\<close>: \<open>%\<close> stands for any run of characters, \<open>_\<close> for one,
  a backslash takes the next character literally, and letters match without regard to
  case (ASCII letters here).
\<close>

datatype like_token = AnyString | AnyChar | Literal char

definition like_token_of :: "char \<Rightarrow> like_token" where
  "like_token_of c =
     (if c = CHR ''%'' then AnyString else if c = CHR ''_'' then AnyChar else Literal c)"

fun like_tokens :: "string \<Rightarrow> like_token list option" where
  "like_tokens [] = Some []"
| "like_tokens [c] = (if c = CHR 0x5C then None else Some [like_token_of c])"
| "like_tokens (c # d # ds) =
     (if c = CHR 0x5C then map_option ((#) (Literal d)) (like_tokens ds)
      else map_option ((#) (like_token_of c)) (like_tokens (d # ds)))"

fun tokens_match :: "like_token list \<Rightarrow> string \<Rightarrow> bool" where
  "tokens_match [] s = (s = [])"
| "tokens_match (t # ts) [] = (t = AnyString \<and> tokens_match ts [])"
| "tokens_match (t # ts) (c # cs) =
     (case t of
        AnyString \<Rightarrow> tokens_match ts (c # cs) \<or> tokens_match (t # ts) cs
      | AnyChar \<Rightarrow> tokens_match ts cs
      | Literal l \<Rightarrow> upper_char l = upper_char c \<and> tokens_match ts cs)"

definition SearchByName :: "world \<Rightarrow> string \<Rightarrow> (error + Currency list) \<times> world" where
  "SearchByName w name =
     (case like_tokens (''%'' @ name @ ''%'') of
        None \<Rightarrow>
          (Inl (''failed to search currencies by name: '' @
                ''ERROR: LIKE pattern must not end with escape character (SQLSTATE 22025)''),
           snd (db_roundtrip (emit (StoreSearchByName name) w)))
      | Some ts \<Rightarrow>
          (case gorm_Find (emit (StoreSearchByName name) w)
                  (\<lambda>c. tokens_match ts (Description c)) None None of
             (Inl e, w1) \<Rightarrow>
               (Inl (''failed to search currencies by name: '' @ gorm_text e), w1)
           | (Inr cs, w1) \<Rightarrow> (Inr cs, w1)))"

definition GetByCodes :: "world \<Rightarrow> string list \<Rightarrow> (error + Currency list) \<times> world" where
  "GetByCodes w codes =
     (if length codes = 0 then (Inr [], emit (StoreGetByCodes codes) w)
      else case gorm_Find (emit (StoreGetByCodes codes) w) (\<lambda>c. Code c \<in> set codes)
                  None None of
             (Inl e, w1) \<Rightarrow> (Inl (''failed to get currencies by codes: '' @ gorm_text e), w1)
           | (Inr cs, w1) \<Rightarrow> (Inr cs, w1))"

section \<open>The service (package service)\<close>

text \<open>
  \<open>encoding/json\<close> is a library outside the repository: the service is read over any
  pair of encoders and decoders. \<open>Marshal\<close> answers \<open>None\<close> when it returns an error,
  \<open>Unmarshal\<close> when the payload does not decode.
\<close>

record json =
  Marshal :: "Currency \<Rightarrow> string option"
  Unmarshal :: "string \<Rightarrow> Currency option"
  MarshalList :: "Currency list \<Rightarrow> string option"
  UnmarshalList :: "string \<Rightarrow> Currency list option"

definition cacheTimeout :: int where
  "cacheTimeout = 15 * 60"

definition default_created_by :: uuid where
  "default_created_by = 0x1609b0e130c4402ca76e8f5b4d6cfc24"

definition cacheCurrency :: "json \<Rightarrow> world \<Rightarrow> string \<Rightarrow> Currency \<Rightarrow> world" where
  "cacheCurrency J w cacheKey currency =
     (case Marshal J currency of
        Some currencyJSON \<Rightarrow> redis_Set w cacheKey currencyJSON cacheTimeout
      | None \<Rightarrow> w)"

definition invalidateCache :: "world \<Rightarrow> string \<Rightarrow> world" where
  "invalidateCache w currencyCode =
     (let cacheKey = ''currency:code:'' @ currencyCode;
          w1 = redis_Del w [cacheKey];
          pattern = ''currencies:all:*'';
          (r, w2) = redis_Keys w1 pattern
      in case r of
           Inr keys \<Rightarrow> if length keys > 0 then redis_Del w2 keys else w2
         | Inl err \<Rightarrow> w2)"

definition CreateCurrency :: "world \<Rightarrow> Currency \<Rightarrow> (error + Currency) \<times> world" where
  "CreateCurrency w currency =
     (if Code currency = [] then (Inl ''currency code is required'', w)
      else if Description currency = [] then (Inl ''currency description is required'', w)
      else
        let c1 = (if Factor currency = 0 then currency\<lparr>Factor := 100\<rparr> else currency);
            c2 = (if AmountDisplayFormat c1 = [] then c1\<lparr>AmountDisplayFormat := ''###,###.##''\<rparr>
                  else c1);
            c3 = (if CreatedBy c2 = uuid_Nil then c2\<lparr>CreatedBy := default_created_by\<rparr> else c2)
        in case Create w c3 of
             (Inl err, w1) \<Rightarrow> (Inl (''failed to create currency: '' @ err), w1)
           | (Inr c4, w1) \<Rightarrow> (Inr c4, invalidateCache w1 (Code c4)))"

definition GetCurrencyByID :: "world \<Rightarrow> uuid \<Rightarrow> (error + Currency) \<times> world" where
  "GetCurrencyByID w i = GetByID w i"

definition GetCurrencyByCode :: "json \<Rightarrow> world \<Rightarrow> string \<Rightarrow> (error + Currency) \<times> world" where
  "GetCurrencyByCode J w code =
     (let cacheKey = ''currency:code:'' @ code;
          (r, w1) = redis_Get w cacheKey
      in case (case r of Inr cachedCurrency \<Rightarrow> Unmarshal J cachedCurrency | Inl err \<Rightarrow> None) of
           Some currency \<Rightarrow> (Inr currency, w1)
         | None \<Rightarrow>
             (case GetByCode w1 code of
                (Inl err, w2) \<Rightarrow> (Inl err, w2)
              | (Inr currency, w2) \<Rightarrow> (Inr currency, cacheCurrency J w2 cacheKey currency)))"

definition GetAllCurrencies ::
  "json \<Rightarrow> world \<Rightarrow> int \<Rightarrow> int \<Rightarrow> (error + Currency list) \<times> world"
where
  "GetAllCurrencies J w limit offset =
     (if offset = 0 \<and> limit \<le> 100 then
        let cacheKey = ''currencies:all:'' @ itoa limit @ '':'' @ itoa offset;
            (r, w1) = redis_Get w cacheKey
        in case (case r of Inr cachedCurrencies \<Rightarrow> UnmarshalList J cachedCurrencies
                          | Inl err \<Rightarrow> None) of
             Some currencies \<Rightarrow> (Inr currencies, w1)
           | None \<Rightarrow>
               (case GetAll w1 limit offset of
                  (Inl err, w2) \<Rightarrow> (Inl err, w2)
                | (Inr currencies, w2) \<Rightarrow>
                    let currenciesJSON = (case MarshalList J currencies of
                                            Some b \<Rightarrow> b | None \<Rightarrow> [])
                    in (Inr currencies, redis_Set w2 cacheKey currenciesJSON cacheTimeout))
      else GetAll w limit offset)"

definition UpdateCurrency :: "world \<Rightarrow> Currency \<Rightarrow> (error + Currency) \<times> world" where
  "UpdateCurrency w currency =
     (if Code currency = [] then (Inl ''currency code is required'', w)
      else if Description currency = [] then (Inl ''currency description is required'', w)
      else case Update w currency of
             (Inl err, w1) \<Rightarrow> (Inl (''failed to update currency: '' @ err), w1)
           | (Inr c, w1) \<Rightarrow> (Inr c, invalidateCache w1 (Code c)))"

definition DeleteCurrency :: "world \<Rightarrow> uuid \<Rightarrow> (error + unit) \<times> world" where
  "DeleteCurrency w i =
     (case GetByID w i of
        (Inl err, w1) \<Rightarrow> (Inl (''failed to get currency before deletion: '' @ err), w1)
      | (Inr currency, w1) \<Rightarrow>
          (case Delete w1 i of
             (Inl err, w2) \<Rightarrow> (Inl (''failed to delete currency: '' @ err), w2)
           | (Inr u, w2) \<Rightarrow> (Inr (), invalidateCache w2 (Code currency))))"

definition GetCurrencyCount :: "world \<Rightarrow> (error + int) \<times> world" where
  "GetCurrencyCount w = GetCount w"

definition SearchCurrencies :: "world \<Rightarrow> string \<Rightarrow> (error + Currency list) \<times> world" where
  "SearchCurrencies w query = (if query = [] then (Inr [], w) else SearchByName w query)"

definition Service_GetCurrenciesByFactor ::
  "world \<Rightarrow> int \<Rightarrow> (error + Currency list) \<times> world"
where
  "Service_GetCurrenciesByFactor w factor = GetCurrenciesByFactor w factor"

section \<open>The handler (package handler)\<close>

text \<open>
  A request reaches a handler as its path parameter, its query values (the empty string
  for one that is absent) and its body as the JSON decoder read it (\<open>None\<close> when the
  body is not JSON of the right shape). A handler answers a status code and an
  envelope. Go's \<open>int\<close> has 64 bits: the one product the handler computes wraps.
\<close>

record APIResponse =
  Success :: bool
  Data :: "Currency option"
  Error :: string
  Message :: string
  Timestamp :: timestamp

record PaginationResponse =
  pg_Success :: bool
  pg_Data :: "Currency list"
  pg_Timestamp :: timestamp
  Page :: int
  Limit :: int
  Offset :: int
  Total :: int

datatype body = Envelope APIResponse | Paginated PaginationResponse

record CreateCurrencyRequest =
  req_Code :: string
  req_Description :: string
  req_AmountDisplayFormat :: string
  req_HtmlEncodedSymbol :: string
  req_Factor :: int

record UpdateCurrencyRequest =
  upd_Description :: string
  upd_AmountDisplayFormat :: string
  upd_HtmlEncodedSymbol :: string
  upd_Factor :: int

definition wrap64 :: "int \<Rightarrow> int" where
  "wrap64 x = (x + 2 ^ 63) mod 2 ^ 64 - 2 ^ 63"

text \<open>\<open>strconv.Atoi\<close>: an optional sign, then decimal digits, within 64 bits.\<close>

definition is_digit :: "char \<Rightarrow> bool" where
  "is_digit c = (48 \<le> (of_char c :: nat) \<and> (of_char c :: nat) \<le> 57)"

definition Atoi :: "string \<Rightarrow> int option" where
  "Atoi s =
     (let (neg, ds) = (case s of
                         [] \<Rightarrow> (False, [])
                       | c # r \<Rightarrow> if c = CHR ''-'' then (True, r)
                                  else if c = CHR ''+'' then (False, r) else (False, s))
      in if ds = [] \<or> \<not> list_all is_digit ds then None
         else let n = foldl (\<lambda>a c. 10 * a + (int (of_char c) - 48)) 0 ds;
                  v = (if neg then - n else n)
              in if v < - (2 ^ 63) \<or> 2 ^ 63 - 1 < v then None else Some v)"

definition getQueryInt :: "string \<Rightarrow> int \<Rightarrow> int" where
  "getQueryInt valueStr defaultValue =
     (if valueStr = [] then defaultValue
      else case Atoi valueStr of None \<Rightarrow> defaultValue | Some v \<Rightarrow> v)"

definition successResponse :: "world \<Rightarrow> Currency option \<Rightarrow> string \<Rightarrow> nat \<times> body" where
  "successResponse w d msg =
     (if msg = ''Currency created successfully'' then 201 else 200,
      Envelope \<lparr>Success = True, Data = d, Error = [], Message = msg, Timestamp = clock w\<rparr>)"

text \<open>The error itself is only printed to the log: the answer does not depend on it.\<close>

definition errorResponse :: "world \<Rightarrow> nat \<Rightarrow> string \<Rightarrow> error option \<Rightarrow> nat \<times> body" where
  "errorResponse w statusCode msg err =
     (statusCode,
      Envelope \<lparr>Success = False, Data = None, Error = msg, Message = [], Timestamp = clock w\<rparr>)"

definition GetCurrencies ::
  "json \<Rightarrow> world \<Rightarrow> string \<Rightarrow> string \<Rightarrow> string \<Rightarrow> string \<Rightarrow> (nat \<times> body) \<times> world"
where
  "GetCurrencies J w pageStr limitStr search factorStr =
     (let page = getQueryInt pageStr 1;
          limit0 = getQueryInt limitStr 50;
          factor = getQueryInt factorStr 0;
          offset = wrap64 (wrap64 (page - 1) * limit0);
          limit1 = (if limit0 > 100 then 100 else limit0);
          limit = (if limit1 < 1 then 10 else limit1);
          (r, w1) = (if search \<noteq> [] then SearchCurrencies w search
                     else if factor > 0 then Service_GetCurrenciesByFactor w factor
                     else GetAllCurrencies J w limit offset)
      in case r of
           Inl err \<Rightarrow> (errorResponse w1 500 ''Failed to retrieve currencies'' (Some err), w1)
         | Inr currencies \<Rightarrow>
             let (total, w2) =
                   (if search = [] \<and> factor = 0 then
                      (case GetCurrencyCount w1 of
                         (Inl err, w') \<Rightarrow> (0, w')
                       | (Inr n, w') \<Rightarrow> (n, w'))
                    else (0, w1))
             in ((200, Paginated \<lparr>pg_Success = True, pg_Data = currencies,
                                   pg_Timestamp = clock w2, Page = page, Limit = limit,
                                   Offset = offset, Total = total\<rparr>), w2))"

definition Handler_GetCurrencyByCode ::
  "json \<Rightarrow> world \<Rightarrow> string \<Rightarrow> (nat \<times> body) \<times> world"
where
  "Handler_GetCurrencyByCode J w param =
     (let code = ToUpper param in
      if length code \<noteq> 3 then (errorResponse w 400 ''Invalid currency code format'' None, w)
      else case GetCurrencyByCode J w code of
             (Inl err, w1) \<Rightarrow> (errorResponse w1 404 ''Currency not found'' (Some err), w1)
           | (Inr currency, w1) \<Rightarrow>
               (successResponse w1 (Some currency) ''Currency retrieved successfully'', w1))"

text \<open>
  \<open>ShouldBindJSON\<close> on a \<open>CreateCurrencyRequest\<close>: the tags \<open>required,len=3\<close> of
  \<open>code\<close> and \<open>required,max=255\<close> of \<open>description\<close>. The update request has no tag.
\<close>

definition bind_create :: "CreateCurrencyRequest option \<Rightarrow> error + CreateCurrencyRequest" where
  "bind_create b =
     (case b of
        None \<Rightarrow> Inl ''invalid request body''
      | Some req \<Rightarrow>
          if req_Code req = [] \<or> length (req_Code req) \<noteq> 3 then Inl ''Code: required,len=3''
          else if req_Description req = [] \<or> length (req_Description req) > 255
          then Inl ''Description: required,max=255''
          else Inr req)"

definition bind_update :: "UpdateCurrencyRequest option \<Rightarrow> error + UpdateCurrencyRequest" where
  "bind_update b = (case b of None \<Rightarrow> Inl ''invalid request body'' | Some req \<Rightarrow> Inr req)"

definition Handler_CreateCurrency ::
  "world \<Rightarrow> CreateCurrencyRequest option \<Rightarrow> (nat \<times> body) \<times> world"
where
  "Handler_CreateCurrency w b =
     (case bind_create b of
        Inl err \<Rightarrow> (errorResponse w 400 ''Invalid request body'' (Some err), w)
      | Inr req \<Rightarrow>
          let currency =
                \<lparr>ID = uuid_Nil, Code = ToUpper (req_Code req),
                 Description = req_Description req,
                 AmountDisplayFormat = req_AmountDisplayFormat req,
                 HtmlEncodedSymbol = req_HtmlEncodedSymbol req, Factor = req_Factor req,
                 CreatedAt = zero_time, UpdatedAt = zero_time, CreatedBy = uuid_Nil\<rparr>
          in case CreateCurrency w currency of
               (Inl err, w1) \<Rightarrow>
                 if Contains err ''duplicate''
                 then (errorResponse w1 409 ''Currency code already exists'' (Some err), w1)
                 else (errorResponse w1 500 ''Failed to create currency'' (Some err), w1)
             | (Inr created, w1) \<Rightarrow>
                 (successResponse w1 (Some created) ''Currency created successfully'', w1))"

definition apply_update :: "UpdateCurrencyRequest \<Rightarrow> Currency \<Rightarrow> Currency" where
  "apply_update req currency =
     (let c1 = (if upd_Description req \<noteq> [] then currency\<lparr>Description := upd_Description req\<rparr>
                else currency);
          c2 = (if upd_AmountDisplayFormat req \<noteq> []
                then c1\<lparr>AmountDisplayFormat := upd_AmountDisplayFormat req\<rparr> else c1);
          c3 = (if upd_HtmlEncodedSymbol req \<noteq> []
                then c2\<lparr>HtmlEncodedSymbol := upd_HtmlEncodedSymbol req\<rparr> else c2)
      in if upd_Factor req > 0 then c3\<lparr>Factor := upd_Factor req\<rparr> else c3)"

definition Handler_UpdateCurrency ::
  "json \<Rightarrow> world \<Rightarrow> string \<Rightarrow> UpdateCurrencyRequest option \<Rightarrow> (nat \<times> body) \<times> world"
where
  "Handler_UpdateCurrency J w param b =
     (let code = ToUpper param in
      if length code \<noteq> 3 then (errorResponse w 400 ''Invalid currency code format'' None, w)
      else case bind_update b of
             Inl err \<Rightarrow> (errorResponse w 400 ''Invalid request body'' (Some err), w)
           | Inr req \<Rightarrow>
               (case GetCurrencyByCode J w code of
                  (Inl err, w1) \<Rightarrow> (errorResponse w1 404 ''Currency not found'' (Some err), w1)
                | (Inr currency, w1) \<Rightarrow>
                    (case UpdateCurrency w1 (apply_update req currency) of
                       (Inl err, w2) \<Rightarrow>
                         (errorResponse w2 500 ''Failed to update currency'' (Some err), w2)
                     | (Inr updated, w2) \<Rightarrow>
                         (successResponse w2 (Some updated) ''Currency updated successfully'',
                          w2))))"

definition Handler_DeleteCurrency ::
  "json \<Rightarrow> world \<Rightarrow> string \<Rightarrow> (nat \<times> body) \<times> world"
where
  "Handler_DeleteCurrency J w param =
     (let code = ToUpper param in
      if length code \<noteq> 3 then (errorResponse w 400 ''Invalid currency code format'' None, w)
      else case GetCurrencyByCode J w code of
             (Inl err, w1) \<Rightarrow> (errorResponse w1 404 ''Currency not found'' (Some err), w1)
           | (Inr currency, w1) \<Rightarrow>
               (case DeleteCurrency w1 (ID currency) of
                  (Inl err, w2) \<Rightarrow>
                    (errorResponse w2 500 ''Failed to delete currency'' (Some err), w2)
                | (Inr u, w2) \<Rightarrow>
                    (successResponse w2 None ''Currency deleted successfully'', w2)))"

text \<open>
  The row that \<open>db.Create\<close> makes of a struct at a given instant: the struct with its
  unset format, factor and timestamps filled, under the struct's id when it has one.
\<close>

definition stored_as :: "timestamp \<Rightarrow> Currency \<Rightarrow> Currency \<Rightarrow> bool" where
  "stored_as now c r =
     (r = fill_defaults now (c\<lparr>ID := ID r\<rparr>) \<and> (ID c = uuid_Nil \<or> ID r = ID c))"

section \<open>A concrete world\<close>

text \<open>
  The first row of the seed data (\<open>AED\<close>), a table holding it, an empty cache, servers
  that answer, and an encoder that knows this one record.
\<close>

definition demo_aed :: Currency where
  "demo_aed =
     \<lparr>ID = 0xeb30cd0776fe4b24b9f20274eabf304f, Code = ''AED'',
      Description = ''United Arab Emirates Dirham'', AmountDisplayFormat = ''###,###.##'',
      HtmlEncodedSymbol = ''&#x62f;&#x2e;&#x625;'', Factor = 100,
      CreatedAt = 1700000000, UpdatedAt = 1700000000,
      CreatedBy = 0x1609b0e130c4402ca76e8f5b4d6cfc24\<rparr>"

definition demo_world :: world where
  "demo_world =
     \<lparr>rows = [demo_aed], entries = [], clock = 1700000100, db_faults = [],
      redis_faults = [], uuid_source = (\<lambda>n. 1000 + of_nat n), uuid_next = 0, trace = []\<rparr>"

definition demo_json :: json where
  "demo_json =
     \<lparr>Marshal = (\<lambda>c. if c = demo_aed then Some ''{AED}'' else None),
      Unmarshal = (\<lambda>p. if p = ''{AED}'' then Some demo_aed else None),
      MarshalList = (\<lambda>cs. if cs = [demo_aed] then Some ''[{AED}]'' else None),
      UnmarshalList = (\<lambda>p. if p = ''[{AED}]'' then Some [demo_aed] else None)\<rparr>"

text \<open>The same world once the record is cached.\<close>

definition demo_cached :: world where
  "demo_cached = demo_world\<lparr>entries := [(''currency:code:AED'', ''{AED}'', 1700001000)]\<rparr>"

text \<open>A creation request with every optional field unset, and the record it yields.\<close>

definition demo_new :: Currency where
  "demo_new =
     \<lparr>ID = 0, Code = ''USD'', Description = ''Dollar'', AmountDisplayFormat = [],
      HtmlEncodedSymbol = [], Factor = 0, CreatedAt = - 62135596800,
      UpdatedAt = - 62135596800, CreatedBy = 0\<rparr>"

definition demo_created :: Currency where
  "demo_created =
     \<lparr>ID = 1000, Code = ''USD'', Description = ''Dollar'', AmountDisplayFormat = ''###,###.##'',
      HtmlEncodedSymbol = [], Factor = 100, CreatedAt = 1700000100,
      UpdatedAt = 1700000100, CreatedBy = 0x1609b0e130c4402ca76e8f5b4d6cfc24\<rparr>"


text \<open>
  A world whose cache holds the record and one list page, and the same world with a
  Redis server that fails the next two commands.
\<close>

definition demo_listed :: world where
  "demo_listed =
     demo_world\<lparr>entries := [(''currency:code:AED'', ''{AED}'', 1700001000),
                            (''currencies:all:50:0'', ''[{AED}]'', 1700001000)]\<rparr>"

definition demo_unreachable :: world where
  "demo_unreachable = demo_listed\<lparr>redis_faults := [True, True]\<rparr>"


section \<open>What each command leaves alone\<close>

lemma redis_roundtrip_frame [simp]:
  "rows (snd (redis_roundtrip w)) = rows w"
  "entries (snd (redis_roundtrip w)) = entries w"
  "clock (snd (redis_roundtrip w)) = clock w"
  "db_faults (snd (redis_roundtrip w)) = db_faults w"
  "trace (snd (redis_roundtrip w)) = trace w"
  "uuid_next (snd (redis_roundtrip w)) = uuid_next w"
  "uuid_source (snd (redis_roundtrip w)) = uuid_source w"
  by (simp_all add: redis_roundtrip_def split: list.splits)

lemma db_roundtrip_frame [simp]:
  "rows (snd (db_roundtrip w)) = rows w"
  "entries (snd (db_roundtrip w)) = entries w"
  "clock (snd (db_roundtrip w)) = clock w"
  "redis_faults (snd (db_roundtrip w)) = redis_faults w"
  "trace (snd (db_roundtrip w)) = trace w"
  "uuid_next (snd (db_roundtrip w)) = uuid_next w"
  "uuid_source (snd (db_roundtrip w)) = uuid_source w"
  by (simp_all add: db_roundtrip_def split: list.splits)

lemma emit_frame [simp]:
  "rows (emit e w) = rows w"
  "entries (emit e w) = entries w"
  "clock (emit e w) = clock w"
  "redis_faults (emit e w) = redis_faults w"
  "db_faults (emit e w) = db_faults w"
  "trace (emit e w) = trace w @ [e]"
  "uuid_next (emit e w) = uuid_next w"
  "uuid_source (emit e w) = uuid_source w"
  by (simp_all add: emit_def)

lemma gorm_First_frame [simp]:
  "rows (snd (gorm_First w P)) = rows w"
  "entries (snd (gorm_First w P)) = entries w"
  "clock (snd (gorm_First w P)) = clock w"
  "redis_faults (snd (gorm_First w P)) = redis_faults w"
  "trace (snd (gorm_First w P)) = trace w"
  by (simp_all add: gorm_First_def split_beta Let_def split: option.splits)

lemma GetByID_frame [simp]:
  "rows (snd (GetByID w i)) = rows w"
  "entries (snd (GetByID w i)) = entries w"
  "clock (snd (GetByID w i)) = clock w"
  "redis_faults (snd (GetByID w i)) = redis_faults w"
  "trace (snd (GetByID w i)) = trace w @ [StoreGetByID i]"
  by (simp_all add: GetByID_def split_beta split: prod.splits sum.splits)

lemma gorm_Delete_frame [simp]:
  "entries (snd (gorm_Delete w i)) = entries w"
  "clock (snd (gorm_Delete w i)) = clock w"
  "redis_faults (snd (gorm_Delete w i)) = redis_faults w"
  "trace (snd (gorm_Delete w i)) = trace w"
  by (simp_all add: gorm_Delete_def split_beta Let_def)

lemma Delete_frame [simp]:
  "entries (snd (Delete w i)) = entries w"
  "clock (snd (Delete w i)) = clock w"
  "redis_faults (snd (Delete w i)) = redis_faults w"
  "trace (snd (Delete w i)) = trace w @ [StoreDelete i]"
  by (simp_all add: Delete_def split_beta split: prod.splits sum.splits)

lemma GetByCode_frame [simp]:
  "rows (snd (GetByCode w c)) = rows w"
  "entries (snd (GetByCode w c)) = entries w"
  "clock (snd (GetByCode w c)) = clock w"
  "redis_faults (snd (GetByCode w c)) = redis_faults w"
  "trace (snd (GetByCode w c)) = trace w @ [StoreGetByCode c]"
  by (simp_all add: GetByCode_def split_beta split: prod.splits sum.splits)

lemma redis_Get_frame [simp]:
  "rows (snd (redis_Get w k)) = rows w"
  "entries (snd (redis_Get w k)) = entries w"
  "clock (snd (redis_Get w k)) = clock w"
  "db_faults (snd (redis_Get w k)) = db_faults w"
  "trace (snd (redis_Get w k)) = trace w @ [CacheGet k]"
  by (simp_all add: redis_Get_def split_beta Let_def split: option.splits)

lemma redis_Set_frame [simp]:
  "rows (redis_Set w k v t) = rows w"
  "clock (redis_Set w k v t) = clock w"
  "db_faults (redis_Set w k v t) = db_faults w"
  "trace (redis_Set w k v t) = trace w @ [CacheSet k v]"
  by (simp_all add: redis_Set_def split_beta Let_def)

lemma redis_Del_frame [simp]:
  "rows (redis_Del w ks) = rows w"
  "clock (redis_Del w ks) = clock w"
  "db_faults (redis_Del w ks) = db_faults w"
  "trace (redis_Del w ks) = trace w @ [CacheDel ks]"
  by (simp_all add: redis_Del_def split_beta Let_def)

lemma redis_Keys_frame [simp]:
  "rows (snd (redis_Keys w p)) = rows w"
  "entries (snd (redis_Keys w p)) = entries w"
  "clock (snd (redis_Keys w p)) = clock w"
  "db_faults (snd (redis_Keys w p)) = db_faults w"
  "trace (snd (redis_Keys w p)) = trace w @ [CacheKeys p]"
  by (simp_all add: redis_Keys_def split_beta Let_def)

lemma invalidateCache_frame [simp]:
  "rows (invalidateCache w c) = rows w"
  "clock (invalidateCache w c) = clock w"
  "db_faults (invalidateCache w c) = db_faults w"
  by (simp_all add: invalidateCache_def split_beta Let_def split: sum.splits)

lemma invalidateCache_trace:
  "prefix (trace w @ [CacheDel [''currency:code:'' @ c], CacheKeys ''currencies:all:*''])
     (trace (invalidateCache w c))"
  by (simp add: invalidateCache_def split_beta Let_def split: sum.splits)

lemma db_roundtrip_fst [simp]: "fst (db_roundtrip w) = fails_next (db_faults w)"
  by (simp add: db_roundtrip_def fails_next_def split: list.splits)

lemma redis_roundtrip_fst [simp]: "fst (redis_roundtrip w) = fails_next (redis_faults w)"
  by (simp add: redis_roundtrip_def fails_next_def split: list.splits)

lemma pg_update_absent: "\<forall>r \<in> set rs. ID r \<noteq> ID c \<Longrightarrow> pg_update now rs c = Inr rs"
  by (simp add: pg_update_def)

lemma gorm_Find_frame [simp]:
  "rows (snd (gorm_Find w P l k)) = rows w"
  "entries (snd (gorm_Find w P l k)) = entries w"
  "clock (snd (gorm_Find w P l k)) = clock w"
  "redis_faults (snd (gorm_Find w P l k)) = redis_faults w"
  "trace (snd (gorm_Find w P l k)) = trace w"
  by (simp_all add: gorm_Find_def split_beta Let_def)

lemma GetAll_frame [simp]:
  "rows (snd (GetAll w l k)) = rows w"
  "entries (snd (GetAll w l k)) = entries w"
  "clock (snd (GetAll w l k)) = clock w"
  "redis_faults (snd (GetAll w l k)) = redis_faults w"
  "trace (snd (GetAll w l k)) = trace w @ [StoreGetAll l k]"
  by (simp_all add: GetAll_def split_beta split: prod.splits sum.splits)

lemma cache_lookup_redis_Set:
  "\<not> fails_next (redis_faults w) \<Longrightarrow> 0 < ttl \<Longrightarrow>
   cache_lookup (redis_Set w k v ttl) k = Some v"
  by (simp add: redis_Set_def split_beta Let_def cache_lookup_def)

lemma cacheCurrency_trace:
  "trace (cacheCurrency J w k c) =
     trace w @ (case Marshal J c of Some p \<Rightarrow> [CacheSet k p] | None \<Rightarrow> [])"
  by (simp add: cacheCurrency_def split: option.splits)

lemma cacheCurrency_lookup:
  "Marshal J c = Some p \<Longrightarrow> \<not> fails_next (redis_faults w) \<Longrightarrow>
   cache_lookup (cacheCurrency J w k c) k = Some p"
  by (simp add: cacheCurrency_def cache_lookup_redis_Set cacheTimeout_def)

lemma pg_insert_Inr: "pg_insert rs c = Inr rs' \<Longrightarrow> rs' = rs @ [c]"
  by (auto simp: pg_insert_def split: option.splits if_splits)

lemma BeforeCreate_fields:
  "BeforeCreate w c = (c1, w1) \<Longrightarrow>
   c1 = c\<lparr>ID := ID c1\<rparr> \<and> (ID c \<noteq> uuid_Nil \<longrightarrow> ID c1 = ID c) \<and>
   rows w1 = rows w \<and> clock w1 = clock w \<and> entries w1 = entries w \<and> trace w1 = trace w \<and>
   redis_faults w1 = redis_faults w \<and> db_faults w1 = db_faults w"
  by (auto simp: BeforeCreate_def uuid_New_def Let_def split: if_splits)

lemma gorm_Create_Inr:
  assumes "gorm_Create w c = (Inr c', w')"
  shows "rows w' = rows w @ [c'] \<and>
    (\<exists>i. c' = fill_defaults (clock w) (c\<lparr>ID := i\<rparr>)) \<and>
    (ID c \<noteq> uuid_Nil \<longrightarrow> ID c' = ID c) \<and>
    entries w' = entries w \<and> clock w' = clock w \<and> trace w' = trace w \<and>
    redis_faults w' = redis_faults w"
proof -
  obtain c1 w1 where b: "BeforeCreate w c = (c1, w1)" by (cases "BeforeCreate w c")
  note bf = BeforeCreate_fields [OF b]
  obtain f w2 where d: "db_roundtrip w1 = (f, w2)" by (cases "db_roundtrip w1")
  have w2: "rows w2 = rows w1" "entries w2 = entries w1" "clock w2 = clock w1"
    "trace w2 = trace w1" "redis_faults w2 = redis_faults w1"
    using db_roundtrip_frame [of w1] d by simp_all
  from assms b d have nf: "\<not> f" and
    ins: "pg_insert (rows w2) (fill_defaults (clock w1) c1) = Inr (rows w')"
    and c': "c' = fill_defaults (clock w1) c1"
    and rest: "entries w' = entries w2" "clock w' = clock w2" "trace w' = trace w2"
      "redis_faults w' = redis_faults w2"
    by (auto simp: gorm_Create_def Let_def split: if_splits sum.splits)
  have id: "ID c' = ID c1" using c' by (simp add: fill_defaults_def)
  have c1: "c1 = c\<lparr>ID := ID c1\<rparr>" using bf by simp
  have "c' = fill_defaults (clock w) (c\<lparr>ID := ID c1\<rparr>)"
    using c' c1 bf by simp
  then have ex: "\<exists>i. c' = fill_defaults (clock w) (c\<lparr>ID := i\<rparr>)" ..
  have "rows w' = rows w @ [c']"
    using pg_insert_Inr [OF ins] c' bf w2 by simp
  moreover have "ID c \<noteq> uuid_Nil \<longrightarrow> ID c' = ID c" using bf id by simp
  ultimately show ?thesis using ex bf w2 rest by simp
qed

lemma demo_create: "fst (CreateCurrency demo_world demo_new) = Inr demo_created"
  by (simp add: CreateCurrency_def Create_def gorm_Create_def BeforeCreate_def uuid_New_def
      fill_defaults_def pg_insert_def check_lengths_def db_roundtrip_def emit_def
      uuid_Nil_def zero_time_def default_created_by_def
      demo_world_def demo_aed_def demo_new_def demo_created_def Let_def split_beta)

section \<open>Inserts and the transaction\<close>

lemma gorm_Create_stored:
  assumes "gorm_Create w c = (Inr c', w')"
  shows "rows w' = rows w @ [c']" "stored_as (clock w) c c'" "clock w' = clock w"
    "\<forall>r \<in> set (rows w). Code r \<noteq> Code c" "Code c' = Code c"
proof -
  from gorm_Create_Inr [OF assms]
  obtain i where c': "c' = fill_defaults (clock w) (c\<lparr>ID := i\<rparr>)"
    and r: "rows w' = rows w @ [c']" and k: "clock w' = clock w"
    and id: "ID c \<noteq> uuid_Nil \<longrightarrow> ID c' = ID c"
    by blast
  have i: "ID c' = i" "Code c' = Code c" using c' by (simp_all add: fill_defaults_def)
  show "rows w' = rows w @ [c']" "clock w' = clock w" "Code c' = Code c"
    using r k i by simp_all
  show "stored_as (clock w) c c'"
    using c' i id by (auto simp: stored_as_def)
  obtain c1 w1 where b: "BeforeCreate w c = (c1, w1)" by (cases "BeforeCreate w c")
  obtain f w2 where d: "db_roundtrip w1 = (f, w2)" by (cases "db_roundtrip w1")
  have w2: "rows w2 = rows w"
    using db_roundtrip_frame(1) [of w1] d BeforeCreate_fields [OF b] by simp
  have c1: "Code c1 = Code c"
    using b by (auto simp: BeforeCreate_def uuid_New_def Let_def split: if_splits)
  from assms b d have "\<exists>rs. pg_insert (rows w2) (fill_defaults (clock w1) c1) = Inr rs"
    by (auto simp: gorm_Create_def Let_def split: if_splits sum.splits)
  then have "\<forall>r \<in> set (rows w2). Code r \<noteq> Code (fill_defaults (clock w1) c1)"
    by (auto simp: pg_insert_def split: option.splits if_splits)
  then show "\<forall>r \<in> set (rows w). Code r \<noteq> Code c"
    using w2 c1 by (simp add: fill_defaults_def)
qed

lemma gorm_Create_clock [simp]: "clock (snd (gorm_Create w c)) = clock w"
  by (auto simp: gorm_Create_def BeforeCreate_def uuid_New_def Let_def split_beta
      split: sum.splits)






section \<open>Invalidation\<close>

lemma glob_match_star [simp]: "glob_match ''*'' s"
  by (induction s) simp_all

lemma glob_match_literal:
  "CHR ''*'' \<notin> set pre \<Longrightarrow> glob_match (pre @ ps) (pre @ s) = glob_match ps s"
  by (induction pre) auto

lemma list_pattern_matches:
  "prefix ''currencies:all:'' k \<Longrightarrow> glob_match ''currencies:all:*'' k"
proof -
  assume "prefix ''currencies:all:'' k"
  then obtain r where k: "k = ''currencies:all:'' @ r" by (auto simp: prefix_def)
  have "glob_match (''currencies:all:'' @ ''*'') (''currencies:all:'' @ r) = glob_match ''*'' r"
    by (rule glob_match_literal) simp
  then show ?thesis using k by simp
qed

lemma redis_roundtrip_faults [simp]:
  "redis_faults (snd (redis_roundtrip w)) = tl (redis_faults w)"
  by (simp add: redis_roundtrip_def split: list.splits)

lemma no_fault_3:
  "True \<notin> set (take 3 fs) \<Longrightarrow>
   \<not> fails_next fs \<and> \<not> fails_next (tl fs) \<and> \<not> fails_next (tl (tl fs))"
  by (cases fs; cases "tl fs"; cases "tl (tl fs)") (auto simp: fails_next_def)

lemma redis_Del_entries:
  "\<not> fails_next (redis_faults w) \<Longrightarrow>
   entries (redis_Del w ks) = filter (\<lambda>e. fst e \<notin> set ks) (entries w) \<and>
   redis_faults (redis_Del w ks) = tl (redis_faults w)"
  by (simp add: redis_Del_def split_beta Let_def)

lemma redis_Keys_result:
  "\<not> fails_next (redis_faults w) \<Longrightarrow>
   fst (redis_Keys w p) =
     Inr (map fst (filter (\<lambda>e. clock w < snd (snd e) \<and> glob_match p (fst e)) (entries w))) \<and>
   redis_faults (snd (redis_Keys w p)) = tl (redis_faults w)"
  by (simp add: redis_Keys_def split_beta Let_def)

lemma member_nonempty: "x \<in> set xs \<Longrightarrow> 0 < length xs"
  by (cases xs) auto

lemma cache_lookup_None_iff:
  "(cache_lookup w k = None) =
   (\<forall>v x. map_of (entries w) k = Some (v, x) \<longrightarrow> \<not> clock w < x)"
  by (auto simp: cache_lookup_def split: option.splits)

lemma invalidateCache_clears:
  assumes nf: "True \<notin> set (take 3 (redis_faults w))"
  shows "cache_lookup (invalidateCache w C) (''currency:code:'' @ C) = None"
    and "prefix ''currencies:all:'' k \<Longrightarrow> cache_lookup (invalidateCache w C) k = None"
proof -
  let ?key = "''currency:code:'' @ C" and ?pat = "''currencies:all:*''"
  let ?w1 = "redis_Del w [?key]"
  let ?w2 = "snd (redis_Keys ?w1 ?pat)"
  let ?keys = "map fst (filter (\<lambda>e. clock ?w1 < snd (snd e) \<and> glob_match ?pat (fst e))
                           (entries ?w1))"
  note f = no_fault_3 [OF nf]
  have e1: "entries ?w1 = filter (\<lambda>e. fst e \<notin> set [?key]) (entries w)"
    and f1: "redis_faults ?w1 = tl (redis_faults w)"
    using redis_Del_entries [of w "[?key]"] f by simp_all
  have k2: "fst (redis_Keys ?w1 ?pat) = Inr ?keys"
    and f2: "redis_faults ?w2 = tl (tl (redis_faults w))"
    using redis_Keys_result [of ?w1 ?pat] f f1 by simp_all
  have e2: "entries ?w2 = entries ?w1" "clock ?w2 = clock w" by simp_all
  let ?w3 = "if length ?keys > 0 then redis_Del ?w2 ?keys else ?w2"
  have inv: "invalidateCache w C = ?w3"
    using k2 by (simp add: invalidateCache_def Let_def split_beta)
  have e3: "entries ?w3 =
      (if length ?keys > 0 then filter (\<lambda>e. fst e \<notin> set ?keys) (entries ?w1) else entries ?w1)"
    using redis_Del_entries [of ?w2 ?keys] f f2 e2 by simp
  have sub: "set (entries ?w3) \<subseteq> set (entries ?w1)"
    using e3 by auto
  have c3: "clock ?w3 = clock w" by simp
  have "?key \<notin> fst ` set (entries ?w1)" using e1 by auto
  then have "?key \<notin> fst ` set (entries ?w3)" using sub by auto
  then have "map_of (entries ?w3) ?key = None" by (simp add: map_of_eq_None_iff)
  then show "cache_lookup (invalidateCache w C) ?key = None"
    unfolding inv by (simp add: cache_lookup_def)
  show "cache_lookup (invalidateCache w C) k = None" if p: "prefix ''currencies:all:'' k"
    unfolding inv cache_lookup_None_iff
  proof (intro allI impI)
    fix v x
    assume m: "map_of (entries ?w3) k = Some (v, x)"
    then have in3: "(k, v, x) \<in> set (entries ?w3)" by (rule map_of_SomeD)
    then have in1: "(k, v, x) \<in> set (entries ?w1)" using sub by auto
    show "\<not> clock ?w3 < x"
    proof
      assume "clock ?w3 < x"
      then have "clock w < x" unfolding c3 .
      then have live: "clock ?w1 < x" by simp
      have "k \<in> set ?keys"
        using in1 live list_pattern_matches [OF p] by force
      moreover from this have "length ?keys > 0" by (rule member_nonempty)
      ultimately have "(k, v, x) \<notin> set (entries ?w3)"
        using e3 by auto
      with in3 show False by simp
    qed
  qed
qed

lemma gorm_Create_redis [simp]:
  "redis_faults (snd (gorm_Create w c)) = redis_faults w"
  by (auto simp: gorm_Create_def BeforeCreate_def uuid_New_def Let_def split_beta
      split: sum.splits)

lemma Create_redis [simp]: "redis_faults (snd (Create w c)) = redis_faults w"
  by (simp add: Create_def split_beta split: prod.splits sum.splits)

lemma Update_redis [simp]: "redis_faults (snd (Update w c)) = redis_faults w"
  by (simp add: Update_def gorm_Updates_def Let_def split_beta split: prod.splits sum.splits)

lemma Update_Code: "Update w c = (Inr c', w') \<Longrightarrow> Code c' = Code c"
  by (auto simp: Update_def gorm_Updates_def Let_def split_beta split: sum.splits if_splits)

lemma find_SomeD: "find P xs = Some x \<Longrightarrow> x \<in> set xs \<and> P x"
  by (induction xs) (auto split: if_splits)

lemma GetByID_found: "GetByID w i = (Inr c, w') \<Longrightarrow> c \<in> set (rows w) \<and> ID c = i"
  by (auto simp: GetByID_def gorm_First_def Let_def split_beta
      split: sum.splits if_splits option.splits dest!: find_SomeD)

lemma Create_Inr:
  assumes "Create w c = (Inr c', w1)"
  shows "Code c' = Code c" "redis_faults w1 = redis_faults w"
proof -
  obtain g wg where gc: "gorm_Create (emit StoreCreate w) c = (g, wg)"
    by (cases "gorm_Create (emit StoreCreate w) c")
  with assms have "g = Inr c'" "wg = w1" by (auto simp: Create_def split: sum.splits)
  with gc have g: "gorm_Create (emit StoreCreate w) c = (Inr c', w1)" by simp
  show "Code c' = Code c" by (rule gorm_Create_stored(5) [OF g])
  show "redis_faults w1 = redis_faults w"
    using gorm_Create_redis [of "emit StoreCreate w" c] g by simp
qed

lemma CreateCurrency_Inr:
  assumes "CreateCurrency w c = (Inr c', w')"
  shows "\<exists>w1. redis_faults w1 = redis_faults w \<and> w' = invalidateCache w1 (Code c') \<and>
    Code c' = Code c"
proof -
  define c3 where "c3 =
    c\<lparr>Factor := (if Factor c = 0 then 100 else Factor c),
      AmountDisplayFormat :=
        (if AmountDisplayFormat c = [] then ''###,###.##'' else AmountDisplayFormat c),
      CreatedBy := (if CreatedBy c = uuid_Nil then default_created_by else CreatedBy c)\<rparr>"
  have v: "Code c \<noteq> []" "Description c \<noteq> []"
    using assms by (auto simp: CreateCurrency_def split: if_splits)
  obtain r w1 where cr: "Create w c3 = (r, w1)" by (cases "Create w c3")
  have body: "CreateCurrency w c =
      (case Create w c3 of
         (Inl err, w1) \<Rightarrow> (Inl (''failed to create currency: '' @ err), w1)
       | (Inr c4, w1) \<Rightarrow> (Inr c4, invalidateCache w1 (Code c4)))"
    using v by (simp add: CreateCurrency_def c3_def Let_def)
  from assms body cr have r: "r = Inr c'" and w': "w' = invalidateCache w1 (Code c')"
    by (auto split: sum.splits)
  from Create_Inr [OF cr [unfolded r]] have "Code c' = Code c3" "redis_faults w1 = redis_faults w"
    by simp_all
  moreover have "Code c3 = Code c" by (simp add: c3_def)
  ultimately show ?thesis using w' by auto
qed

lemma UpdateCurrency_Inr:
  assumes "UpdateCurrency w c = (Inr c', w')"
  shows "\<exists>w1. redis_faults w1 = redis_faults w \<and> w' = invalidateCache w1 (Code c') \<and>
    Code c' = Code c"
proof -
  obtain r w1 where u: "Update w c = (r, w1)" by (cases "Update w c")
  from assms u have r: "r = Inr c'" and w': "w' = invalidateCache w1 (Code c')"
    by (auto simp: UpdateCurrency_def split: if_splits sum.splits)
  have "redis_faults w1 = redis_faults w" using Update_redis [of w c] u by simp
  with Update_Code [OF u [unfolded r]] w' show ?thesis by auto
qed

lemma DeleteCurrency_Inr:
  assumes "DeleteCurrency w i = (Inr u, w')"
  shows "\<exists>r w2. r \<in> set (rows w) \<and> ID r = i \<and> redis_faults w2 = redis_faults w \<and>
    w' = invalidateCache w2 (Code r)"
proof -
  obtain g w1 where g: "GetByID w i = (g, w1)" by (cases "GetByID w i")
  obtain d w2 where d: "Delete w1 i = (d, w2)" by (cases "Delete w1 i")
  from assms g d obtain r where r: "g = Inr r" and w': "w' = invalidateCache w2 (Code r)"
    by (auto simp: DeleteCurrency_def split: sum.splits)
  have "redis_faults w1 = redis_faults w" using GetByID_frame(4) [of w i] g by simp
  moreover have "redis_faults w2 = redis_faults w1" using Delete_frame(3) [of w1 i] d by simp
  ultimately show ?thesis using GetByID_found [OF g [unfolded r]] w' by auto
qed

section \<open>The two paths of a read by code\<close>





lemma advance_frame [simp]:
  "rows (advance d w) = rows w"
  "entries (advance d w) = entries w"
  "clock (advance d w) = clock w + d"
  "redis_faults (advance d w) = redis_faults w"
  "db_faults (advance d w) = db_faults w"
  "trace (advance d w) = trace w"
  by (simp_all add: advance_def)

section \<open>The claims\<close>

text \<open>
  C10. A lookup by id goes straight to the repository: \<open>GetCurrencyByID\<close> is
  \<open>GetByID\<close>, it issues no Redis command (the one new event of the trace is the
  repository call; the fault schedule of the cache is not consumed) and the cache
  entries are what they were.
\<close>

theorem GetCurrencyByID_bypasses_cache:
  "GetCurrencyByID w i = GetByID w i \<and>
   entries (snd (GetCurrencyByID w i)) = entries w \<and>
   redis_faults (snd (GetCurrencyByID w i)) = redis_faults w \<and>
   trace (snd (GetCurrencyByID w i)) = trace w @ [StoreGetByID i]"
  by (simp add: GetCurrencyByID_def)

theorem GetCurrencyByID_bypasses_cache_witness:
  "entries (snd (GetCurrencyByID demo_world (ID demo_aed))) = [] \<and>
   redis_faults (snd (GetCurrencyByID demo_world (ID demo_aed))) = [] \<and>
   trace (snd (GetCurrencyByID demo_world (ID demo_aed))) =
     [StoreGetByID 0xeb30cd0776fe4b24b9f20274eabf304f]"
  using GetCurrencyByID_bypasses_cache [of demo_world "ID demo_aed"]
  by (simp add: demo_world_def demo_aed_def)

text \<open>
  C7. \<open>DeleteCurrency\<close> begins with the repository's \<open>GetByID\<close>. When that call
  answers an error (the id is absent, or the database did not answer), the operation
  answers that error wrapped, the repository call is the only event (no \<open>Delete\<close>, no
  Redis command), and the table and the cache entries are what they were.
\<close>

theorem DeleteCurrency_aborts_on_failed_prefetch:
  "prefix (trace w @ [StoreGetByID i]) (trace (snd (DeleteCurrency w i))) \<and>
   (\<forall>e. fst (GetByID w i) = Inl e \<longrightarrow>
      fst (DeleteCurrency w i) = Inl (''failed to get currency before deletion: '' @ e) \<and>
      trace (snd (DeleteCurrency w i)) = trace w @ [StoreGetByID i] \<and>
      rows (snd (DeleteCurrency w i)) = rows w \<and>
      entries (snd (DeleteCurrency w i)) = entries w \<and>
      redis_faults (snd (DeleteCurrency w i)) = redis_faults w)"
proof -
  obtain r w1 where g: "GetByID w i = (r, w1)" by (cases "GetByID w i")
  have t1: "trace w1 = trace w @ [StoreGetByID i]"
    using GetByID_frame(5) [of w i] g by simp
  show ?thesis
  proof (cases r)
    case (Inl e)
    have "rows w1 = rows w" "entries w1 = entries w" "redis_faults w1 = redis_faults w"
      using GetByID_frame(1,2,4) [of w i] g by simp_all
    with Inl g t1 show ?thesis by (simp add: DeleteCurrency_def)
  next
    case (Inr c)
    obtain r2 w2 where d: "Delete w1 i = (r2, w2)" by (cases "Delete w1 i")
    have t2: "trace w2 = trace w1 @ [StoreDelete i]"
      using Delete_frame(4) [of w1 i] d by simp
    have "prefix (trace w2) (trace (invalidateCache w2 (Code c)))"
      using invalidateCache_trace [of w2 "Code c"] by (meson append_prefixD)
    then have "prefix (trace w @ [StoreGetByID i]) (trace (invalidateCache w2 (Code c)))"
      using t1 t2 by (metis append_prefixD)
    with Inr g d t1 t2 show ?thesis
      by (cases r2) (simp_all add: DeleteCurrency_def)
  qed
qed

theorem DeleteCurrency_aborts_on_failed_prefetch_witness:
  "fst (GetByID demo_world 99) = Inl (''currency not found with id '' @ uuid_String 99) \<and>
   fst (DeleteCurrency demo_world 99) =
     Inl (''failed to get currency before deletion: '' @
          ''currency not found with id '' @ uuid_String 99) \<and>
   trace (snd (DeleteCurrency demo_world 99)) = [StoreGetByID 99] \<and>
   rows (snd (DeleteCurrency demo_world 99)) = [demo_aed] \<and>
   entries (snd (DeleteCurrency demo_world 99)) = []"
proof -
  have g: "fst (GetByID demo_world 99) = Inl (''currency not found with id '' @ uuid_String 99)"
    by (simp add: GetByID_def gorm_First_def db_roundtrip_def emit_def demo_world_def
        demo_aed_def)
  show ?thesis
    using DeleteCurrency_aborts_on_failed_prefetch [of demo_world 99] g
    by (simp add: demo_world_def)
qed

text \<open>
  C5. The repository's \<open>Update\<close> never looks at the count of rows the statement
  touched. For a currency whose id no row has, on a database that answers, \<open>Update\<close>
  reports success and leaves the table as it was: it does not fail with a not-found
  error. \<open>Delete\<close>, which does look at the count, answers the not-found error for the
  same id.
\<close>

theorem Update_of_absent_id_reports_success:
  "\<forall>r \<in> set (rows w). ID r \<noteq> ID c \<Longrightarrow> \<not> fails_next (db_faults w) \<Longrightarrow>
   fst (Update w c) = Inr (c\<lparr>UpdatedAt := clock w\<rparr>) \<and>
   rows (snd (Update w c)) = rows w \<and>
   fst (Delete w (ID c)) = Inl (''currency not found with id '' @ uuid_String (ID c))"
proof -
  assume a: "\<forall>r \<in> set (rows w). ID r \<noteq> ID c" and f: "\<not> fails_next (db_faults w)"
  have "filter (\<lambda>r. ID r = ID c) (rows w) = []"
    using a by (simp add: filter_empty_conv)
  then have "fst (Delete w (ID c)) = Inl (''currency not found with id '' @ uuid_String (ID c))"
    using f by (simp add: Delete_def gorm_Delete_def split_beta Let_def)
  moreover have "fst (Update w c) = Inr (c\<lparr>UpdatedAt := clock w\<rparr>)"
    and "rows (snd (Update w c)) = rows w"
    using a f by (simp_all add: Update_def gorm_Updates_def split_beta Let_def pg_update_absent)
  ultimately show ?thesis by simp
qed

theorem Update_of_absent_id_reports_success_witness:
  "map ID (rows demo_world) = [0xeb30cd0776fe4b24b9f20274eabf304f] \<and>
   \<not> fails_next (db_faults demo_world) \<and>
   fst (Update demo_world (demo_aed\<lparr>ID := 99\<rparr>)) =
     Inr (demo_aed\<lparr>ID := 99, UpdatedAt := 1700000100\<rparr>) \<and>
   rows (snd (Update demo_world (demo_aed\<lparr>ID := 99\<rparr>))) = [demo_aed] \<and>
   fst (Delete demo_world 99) = Inl (''currency not found with id '' @ uuid_String 99)"
proof -
  have a: "\<forall>r \<in> set (rows demo_world). ID r \<noteq> ID (demo_aed\<lparr>ID := 99\<rparr>)"
    by (simp add: demo_world_def demo_aed_def)
  have f: "\<not> fails_next (db_faults demo_world)"
    by (simp add: demo_world_def fails_next_def)
  show ?thesis
    using Update_of_absent_id_reports_success [OF a f] f
    by (simp add: demo_world_def demo_aed_def)
qed

text \<open>
  C3. \<open>GetCurrencyByCode\<close> is cache-aside. When \<open>GET\<close> on the key of the code
  answers a payload that decodes, the decoded record is returned and the \<open>GET\<close> is the
  only event: no repository call. Otherwise (no entry, a failed command, or a payload
  that does not decode) the repository's \<open>GetByCode\<close> is called; its record is
  returned whatever becomes of the cache write, which is issued when the record
  encodes and stores the payload under the same key when the command does not fail;
  its error is returned as it is and then no \<open>SET\<close> is issued and the entries are
  unchanged.
\<close>

theorem GetCurrencyByCode_cache_aside:
  assumes key: "key = ''currency:code:'' @ code" and w1: "w1 = snd (redis_Get w key)"
  shows
    "(\<forall>p c. fst (redis_Get w key) = Inr p \<and> Unmarshal J p = Some c \<longrightarrow>
        GetCurrencyByCode J w code = (Inr c, w1) \<and>
        trace w1 = trace w @ [CacheGet key] \<and> rows w1 = rows w \<and> entries w1 = entries w) \<and>
     ((\<forall>p. fst (redis_Get w key) = Inr p \<longrightarrow> Unmarshal J p = None) \<longrightarrow>
        (\<forall>c w2. GetByCode w1 code = (Inr c, w2) \<longrightarrow>
           GetCurrencyByCode J w code = (Inr c, cacheCurrency J w2 key c) \<and>
           trace (cacheCurrency J w2 key c) =
             trace w @ [CacheGet key, StoreGetByCode code] @
             (case Marshal J c of Some p \<Rightarrow> [CacheSet key p] | None \<Rightarrow> []) \<and>
           (\<forall>p. Marshal J c = Some p \<and> \<not> fails_next (redis_faults w2) \<longrightarrow>
              cache_lookup (cacheCurrency J w2 key c) key = Some p)) \<and>
        (\<forall>e w2. GetByCode w1 code = (Inl e, w2) \<longrightarrow>
           GetCurrencyByCode J w code = (Inl e, w2) \<and>
           trace w2 = trace w @ [CacheGet key, StoreGetByCode code] \<and>
           entries w2 = entries w))"
proof -
  obtain r where g: "redis_Get w key = (r, w1)"
    using w1 by (cases "redis_Get w key") simp
  have t1: "trace w1 = trace w @ [CacheGet key]" "rows w1 = rows w" "entries w1 = entries w"
    using w1 by simp_all
  have hit: "\<And>p c. r = Inr p \<Longrightarrow> Unmarshal J p = Some c \<Longrightarrow>
      GetCurrencyByCode J w code = (Inr c, w1)"
    using g key by (simp add: GetCurrencyByCode_def)
  have miss: "(case r of Inr p \<Rightarrow> Unmarshal J p | Inl err \<Rightarrow> None) = None"
    if "\<forall>p. r = Inr p \<longrightarrow> Unmarshal J p = None"
    using that by (cases r) simp_all
  have ok: "GetCurrencyByCode J w code = (Inr c, cacheCurrency J w2 key c)"
    if "\<forall>p. r = Inr p \<longrightarrow> Unmarshal J p = None" "GetByCode w1 code = (Inr c, w2)" for c w2
    using g key miss [OF that(1)] that(2) by (simp add: GetCurrencyByCode_def)
  have bad: "GetCurrencyByCode J w code = (Inl e, w2)"
    if "\<forall>p. r = Inr p \<longrightarrow> Unmarshal J p = None" "GetByCode w1 code = (Inl e, w2)" for e w2
    using g key miss [OF that(1)] that(2) by (simp add: GetCurrencyByCode_def)
  have t2: "trace w2 = trace w @ [CacheGet key, StoreGetByCode code] \<and> entries w2 = entries w"
    if "GetByCode w1 code = (x, w2)" for x w2
    using GetByCode_frame(2,5) [of w1 code] that t1 by simp
  show ?thesis
    using g hit ok bad t1 t2
    by (auto simp: cacheCurrency_trace cacheCurrency_lookup)
qed

theorem GetCurrencyByCode_cache_aside_witness:
  "fst (GetCurrencyByCode demo_json demo_cached ''AED'') = Inr demo_aed \<and>
   trace (snd (GetCurrencyByCode demo_json demo_cached ''AED'')) =
     [CacheGet ''currency:code:AED''] \<and>
   fst (GetCurrencyByCode demo_json demo_world ''AED'') = Inr demo_aed \<and>
   trace (snd (GetCurrencyByCode demo_json demo_world ''AED'')) =
     [CacheGet ''currency:code:AED'', StoreGetByCode ''AED'',
      CacheSet ''currency:code:AED'' ''{AED}''] \<and>
   cache_lookup (snd (GetCurrencyByCode demo_json demo_world ''AED'')) ''currency:code:AED'' =
     Some ''{AED}'' \<and>
   fst (GetCurrencyByCode demo_json demo_world ''XXX'') =
     Inl ''currency not found with code XXX'' \<and>
   trace (snd (GetCurrencyByCode demo_json demo_world ''XXX'')) =
     [CacheGet ''currency:code:XXX'', StoreGetByCode ''XXX''] \<and>
   entries (snd (GetCurrencyByCode demo_json demo_world ''XXX'')) = []"
proof -
  let ?k = "''currency:code:AED''" and ?x = "''currency:code:XXX''"
  have hit: "fst (redis_Get demo_cached ?k) = Inr ''{AED}''"
    by (simp add: redis_Get_def redis_roundtrip_def emit_def cache_lookup_def demo_cached_def
        demo_world_def)
  have dec: "Unmarshal demo_json ''{AED}'' = Some demo_aed"
    by (simp add: demo_json_def)
  have enc: "Marshal demo_json demo_aed = Some ''{AED}''"
    by (simp add: demo_json_def)
  have miss: "fst (redis_Get demo_world ?k) = Inl RedisNil"
    "fst (redis_Get demo_world ?x) = Inl RedisNil"
    by (simp_all add: redis_Get_def redis_roundtrip_def emit_def cache_lookup_def demo_world_def)
  have found: "fst (GetByCode (snd (redis_Get demo_world ?k)) ''AED'') = Inr demo_aed"
    by (simp add: GetByCode_def gorm_First_def db_roundtrip_def emit_def redis_Get_def
        redis_roundtrip_def cache_lookup_def demo_world_def demo_aed_def)
  have absent: "fst (GetByCode (snd (redis_Get demo_world ?x)) ''XXX'') =
      Inl ''currency not found with code XXX''"
    by (simp add: GetByCode_def gorm_First_def db_roundtrip_def emit_def redis_Get_def
        redis_roundtrip_def cache_lookup_def demo_world_def demo_aed_def)
  have up: "\<not> fails_next (redis_faults (snd (GetByCode (snd (redis_Get demo_world ?k)) ''AED'')))"
    by (simp add: fails_next_def redis_Get_def redis_roundtrip_def emit_def cache_lookup_def
        demo_world_def)
  have e0: "entries demo_world = []" "trace demo_world = []" "trace demo_cached = []"
    by (simp_all add: demo_world_def demo_cached_def)
  show ?thesis
    using
      GetCurrencyByCode_cache_aside [OF refl refl, of demo_cached "''AED''" demo_json]
      GetCurrencyByCode_cache_aside [OF refl refl, of demo_world "''AED''" demo_json]
      GetCurrencyByCode_cache_aside [OF refl refl, of demo_world "''XXX''" demo_json]
      hit dec enc miss found absent up e0
    by (simp add: prod_eq_iff)
qed

text \<open>
  C4. \<open>GetAllCurrencies limit offset\<close> touches the cache exactly when \<open>offset = 0\<close>
  and \<open>limit \<le> 100\<close>. Then it begins with a \<open>GET\<close> of the key
  \<open>currencies:all:<limit>:<offset>\<close>, and whatever follows is the repository call and
  at most one \<open>SET\<close> of that same key. For every other pair it is the repository's
  \<open>GetAll\<close>: that call is the only event, and the cache entries and the fault schedule
  of the cache are what they were.
\<close>

theorem GetAllCurrencies_cache_eligibility:
  assumes key: "key = ''currencies:all:'' @ itoa limit @ '':'' @ itoa offset"
    and G: "w' = snd (GetAllCurrencies J w limit offset)"
  shows
    "(offset = 0 \<and> limit \<le> 100 \<longrightarrow>
        (\<exists>rest. trace w' = trace w @ CacheGet key # rest \<and>
           (rest = [] \<or> rest = [StoreGetAll limit offset] \<or>
            (\<exists>v. rest = [StoreGetAll limit offset, CacheSet key v])))) \<and>
     (\<not> (offset = 0 \<and> limit \<le> 100) \<longrightarrow>
        GetAllCurrencies J w limit offset = GetAll w limit offset \<and>
        trace w' = trace w @ [StoreGetAll limit offset] \<and>
        entries w' = entries w \<and> redis_faults w' = redis_faults w) \<and>
     ((\<exists>e \<in> set (drop (length (trace w)) (trace w')). is_cache_event e) =
        (offset = 0 \<and> limit \<le> 100))"
proof (cases "offset = 0 \<and> limit \<le> 100")
  case False
  then have "GetAllCurrencies J w limit offset = GetAll w limit offset"
    by (auto simp: GetAllCurrencies_def)
  with False G show ?thesis by simp
next
  case True
  obtain r w1 where g: "redis_Get w key = (r, w1)" by (cases "redis_Get w key")
  have t1: "trace w1 = trace w @ [CacheGet key]"
    using redis_Get_frame(5) [of w key] g by simp
  obtain x w2 where a: "GetAll w1 limit offset = (x, w2)" by (cases "GetAll w1 limit offset")
  have t2: "trace w2 = trace w1 @ [StoreGetAll limit offset]"
    using GetAll_frame(5) [of w1 limit offset] a by simp
  have "\<exists>rest. trace w' = trace w @ CacheGet key # rest \<and>
           (rest = [] \<or> rest = [StoreGetAll limit offset] \<or>
            (\<exists>v. rest = [StoreGetAll limit offset, CacheSet key v]))"
    using True G key g a t1 t2
    by (auto simp: GetAllCurrencies_def Let_def split: sum.splits option.splits)
  then obtain rest where r: "trace w' = trace w @ CacheGet key # rest" by blast
  then have "\<exists>e \<in> set (drop (length (trace w)) (trace w')). is_cache_event e" by simp
  with True \<open>\<exists>rest. _\<close> show ?thesis by simp
qed

theorem GetAllCurrencies_cache_eligibility_witness:
  "hd (trace (snd (GetAllCurrencies demo_json demo_world 100 0))) =
     CacheGet ''currencies:all:100:0'' \<and>
   trace (snd (GetAllCurrencies demo_json demo_world 100 0)) =
     [CacheGet ''currencies:all:100:0'', StoreGetAll 100 0,
      CacheSet ''currencies:all:100:0'' ''[{AED}]''] \<and>
   trace (snd (GetAllCurrencies demo_json demo_world 101 0)) = [StoreGetAll 101 0] \<and>
   entries (snd (GetAllCurrencies demo_json demo_world 101 0)) = [] \<and>
   trace (snd (GetAllCurrencies demo_json demo_world 50 10)) = [StoreGetAll 50 10] \<and>
   entries (snd (GetAllCurrencies demo_json demo_world 50 10)) = []"
proof -
  have i: "itoa 100 = ''100''" "itoa 0 = ''0''"
    by code_simp+
  have k: "''currencies:all:'' @ itoa 100 @ '':'' @ itoa 0 = ''currencies:all:100:0''"
    by (simp add: i)
  have e0: "entries demo_world = []" "trace demo_world = []"
    by (simp_all add: demo_world_def)
  have full: "trace (snd (GetAllCurrencies demo_json demo_world 100 0)) =
     [CacheGet ''currencies:all:100:0'', StoreGetAll 100 0,
      CacheSet ''currencies:all:100:0'' ''[{AED}]'']"
    by (simp add: GetAllCurrencies_def i redis_Get_def redis_Set_def redis_roundtrip_def
        emit_def cache_lookup_def GetAll_def gorm_Find_def db_roundtrip_def demo_world_def
        demo_json_def Let_def)
  show ?thesis
    using
      GetAllCurrencies_cache_eligibility
        [where w = demo_world and J = demo_json and limit = 100 and offset = 0, OF refl refl]
      GetAllCurrencies_cache_eligibility
        [where w = demo_world and J = demo_json and limit = 101 and offset = 0, OF refl refl]
      GetAllCurrencies_cache_eligibility
        [where w = demo_world and J = demo_json and limit = 50 and offset = 10, OF refl refl]
      k e0 full
    by auto
qed

text \<open>
  C8. A currency with a code and a description, passed to \<open>CreateCurrency\<close>: when
  the creation succeeds, the record answered is the row appended to the table; its
  factor is 100 where the input's was 0, its display format is \<open>###,###.##\<close> where the
  input's was empty, its creator is the placeholder
  \<open>1609b0e1-30c4-402c-a76e-8f5b4d6cfc24\<close> where the input's was the nil UUID; every
  other field that was set (and the symbol, set or not) is stored as given.
\<close>

theorem CreateCurrency_defaults:
  assumes "Code c \<noteq> []" and "Description c \<noteq> []"
    and ok: "CreateCurrency w c = (Inr c', w')"
  shows "rows w' = rows w @ [c'] \<and>
    Factor c' = (if Factor c = 0 then 100 else Factor c) \<and>
    AmountDisplayFormat c' =
      (if AmountDisplayFormat c = [] then ''###,###.##'' else AmountDisplayFormat c) \<and>
    CreatedBy c' = (if CreatedBy c = uuid_Nil then default_created_by else CreatedBy c) \<and>
    Code c' = Code c \<and> Description c' = Description c \<and>
    HtmlEncodedSymbol c' = HtmlEncodedSymbol c \<and>
    (ID c \<noteq> uuid_Nil \<longrightarrow> ID c' = ID c) \<and>
    (CreatedAt c \<noteq> zero_time \<longrightarrow> CreatedAt c' = CreatedAt c) \<and>
    (UpdatedAt c \<noteq> zero_time \<longrightarrow> UpdatedAt c' = UpdatedAt c)"
proof -
  define c3 where "c3 =
    c\<lparr>Factor := (if Factor c = 0 then 100 else Factor c),
      AmountDisplayFormat :=
        (if AmountDisplayFormat c = [] then ''###,###.##'' else AmountDisplayFormat c),
      CreatedBy := (if CreatedBy c = uuid_Nil then default_created_by else CreatedBy c)\<rparr>"
  obtain r w1 where cr: "Create w c3 = (r, w1)" by (cases "Create w c3")
  have body: "CreateCurrency w c =
      (case Create w c3 of
         (Inl err, w1) \<Rightarrow> (Inl (''failed to create currency: '' @ err), w1)
       | (Inr c4, w1) \<Rightarrow> (Inr c4, invalidateCache w1 (Code c4)))"
    using assms(1,2) by (simp add: CreateCurrency_def c3_def Let_def)
  from ok body cr have r: "r = Inr c'" and w': "w' = invalidateCache w1 (Code c')"
    by (auto split: sum.splits)
  obtain g wg where gc: "gorm_Create (emit StoreCreate w) c3 = (g, wg)"
    by (cases "gorm_Create (emit StoreCreate w) c3")
  from cr r gc have "g = Inr c'" "wg = w1"
    by (auto simp: Create_def split: sum.splits)
  with gc have "gorm_Create (emit StoreCreate w) c3 = (Inr c', w1)" by simp
  from gorm_Create_Inr [OF this]
  have rows: "rows w1 = rows w @ [c']"
    and ex: "\<exists>i. c' = fill_defaults (clock w) (c3\<lparr>ID := i\<rparr>)"
    and idk: "ID c3 \<noteq> uuid_Nil \<longrightarrow> ID c' = ID c3"
    by simp_all
  from ex obtain i where c': "c' = fill_defaults (clock w) (c3\<lparr>ID := i\<rparr>)" ..
  have f: "Factor c' = Factor c3" "AmountDisplayFormat c' = AmountDisplayFormat c3"
    "CreatedBy c' = CreatedBy c3" "Code c' = Code c3" "Description c' = Description c3"
    "HtmlEncodedSymbol c' = HtmlEncodedSymbol c3"
    "CreatedAt c3 \<noteq> zero_time \<longrightarrow> CreatedAt c' = CreatedAt c3"
    "UpdatedAt c3 \<noteq> zero_time \<longrightarrow> UpdatedAt c' = UpdatedAt c3"
    by (simp_all add: c' fill_defaults_def c3_def)
  show ?thesis
    using rows w' f idk by (simp add: c3_def)
qed

theorem CreateCurrency_defaults_witness:
  "Code demo_new \<noteq> [] \<and> Description demo_new \<noteq> [] \<and>
   Factor demo_new = 0 \<and> AmountDisplayFormat demo_new = [] \<and> CreatedBy demo_new = uuid_Nil \<and>
   fst (CreateCurrency demo_world demo_new) = Inr demo_created \<and>
   rows (snd (CreateCurrency demo_world demo_new)) = [demo_aed, demo_created] \<and>
   Factor demo_created = 100 \<and> AmountDisplayFormat demo_created = ''###,###.##'' \<and>
   CreatedBy demo_created = default_created_by \<and>
   uuid_String default_created_by = ''1609b0e1-30c4-402c-a76e-8f5b4d6cfc24''"
proof -
  have h: "Code demo_new \<noteq> []" "Description demo_new \<noteq> []"
    by (simp_all add: demo_new_def)
  have z: "Factor demo_new = 0" "AmountDisplayFormat demo_new = []"
    "CreatedBy demo_new = uuid_Nil"
    by (simp_all add: demo_new_def uuid_Nil_def)
  have ok: "CreateCurrency demo_world demo_new =
      (Inr demo_created, snd (CreateCurrency demo_world demo_new))"
    using demo_create by (simp add: prod_eq_iff)
  have s: "uuid_String default_created_by = ''1609b0e1-30c4-402c-a76e-8f5b4d6cfc24''"
    by code_simp
  have r: "rows demo_world = [demo_aed]" by (simp add: demo_world_def)
  show ?thesis
    using CreateCurrency_defaults [OF h ok] h z demo_create s r
    by simp
qed



text \<open>
  C1. Invalidation is best effort: \<open>invalidateCache\<close> drops the outcome of its first
  \<open>DEL\<close> and deletes the list keys only when \<open>KEYS\<close> answered. What holds: when none
  of the (at most three) Redis commands of the invalidation fails, then after a
  successful \<open>CreateCurrency\<close> or \<open>UpdateCurrency\<close> of a record with code \<open>C\<close>, or a
  successful \<open>DeleteCurrency\<close> of the row with code \<open>C\<close>, a lookup of
  \<open>currency:code:C\<close> and of any key that starts with \<open>currencies:all:\<close> finds nothing.
\<close>

theorem writes_invalidate_when_cache_answers:
  assumes nf: "True \<notin> set (take 3 (redis_faults w))"
  shows
    "(\<forall>c' w'. CreateCurrency w c = (Inr c', w') \<longrightarrow>
        Code c' = Code c \<and>
        cache_lookup w' (''currency:code:'' @ Code c) = None \<and>
        (\<forall>k. prefix ''currencies:all:'' k \<longrightarrow> cache_lookup w' k = None)) \<and>
     (\<forall>c' w'. UpdateCurrency w c = (Inr c', w') \<longrightarrow>
        Code c' = Code c \<and>
        cache_lookup w' (''currency:code:'' @ Code c) = None \<and>
        (\<forall>k. prefix ''currencies:all:'' k \<longrightarrow> cache_lookup w' k = None)) \<and>
     (\<forall>w'. DeleteCurrency w i = (Inr (), w') \<longrightarrow>
        (\<exists>r \<in> set (rows w). ID r = i \<and>
           cache_lookup w' (''currency:code:'' @ Code r) = None) \<and>
        (\<forall>k. prefix ''currencies:all:'' k \<longrightarrow> cache_lookup w' k = None))"
proof -
  have create: "Code c' = Code c \<and>
        cache_lookup w' (''currency:code:'' @ Code c) = None \<and>
        (\<forall>k. prefix ''currencies:all:'' k \<longrightarrow> cache_lookup w' k = None)"
    if "CreateCurrency w c = (Inr c', w')" for c' w'
  proof -
    from CreateCurrency_Inr [OF that] obtain w1 where
      w1: "redis_faults w1 = redis_faults w" "w' = invalidateCache w1 (Code c')"
        "Code c' = Code c" by blast
    have "True \<notin> set (take 3 (redis_faults w1))" using nf w1(1) by simp
    from invalidateCache_clears [where C = "Code c'", OF this] w1 show ?thesis by simp
  qed
  have update: "Code c' = Code c \<and>
        cache_lookup w' (''currency:code:'' @ Code c) = None \<and>
        (\<forall>k. prefix ''currencies:all:'' k \<longrightarrow> cache_lookup w' k = None)"
    if "UpdateCurrency w c = (Inr c', w')" for c' w'
  proof -
    from UpdateCurrency_Inr [OF that] obtain w1 where
      w1: "redis_faults w1 = redis_faults w" "w' = invalidateCache w1 (Code c')"
        "Code c' = Code c" by blast
    have "True \<notin> set (take 3 (redis_faults w1))" using nf w1(1) by simp
    from invalidateCache_clears [where C = "Code c'", OF this] w1 show ?thesis by simp
  qed
  have delete: "(\<exists>r \<in> set (rows w). ID r = i \<and>
           cache_lookup w' (''currency:code:'' @ Code r) = None) \<and>
        (\<forall>k. prefix ''currencies:all:'' k \<longrightarrow> cache_lookup w' k = None)"
    if "DeleteCurrency w i = (Inr (), w')" for w'
  proof -
    from DeleteCurrency_Inr [OF that] obtain r w2 where
      r: "r \<in> set (rows w)" "ID r = i" "redis_faults w2 = redis_faults w"
        "w' = invalidateCache w2 (Code r)" by blast
    have "True \<notin> set (take 3 (redis_faults w2))" using nf r(3) by simp
    from invalidateCache_clears [where C = "Code r", OF this] r show ?thesis by auto
  qed
  from create update delete show ?thesis by blast
qed

theorem writes_invalidate_when_cache_answers_witness:
  "True \<notin> set (take 3 (redis_faults demo_listed)) \<and>
   cache_lookup demo_listed ''currency:code:AED'' = Some ''{AED}'' \<and>
   cache_lookup demo_listed ''currencies:all:50:0'' = Some ''[{AED}]'' \<and>
   fst (UpdateCurrency demo_listed (demo_aed\<lparr>Description := ''Dirham''\<rparr>)) =
     Inr (demo_aed\<lparr>Description := ''Dirham'', UpdatedAt := 1700000100\<rparr>) \<and>
   cache_lookup (snd (UpdateCurrency demo_listed (demo_aed\<lparr>Description := ''Dirham''\<rparr>)))
     ''currency:code:AED'' = None \<and>
   cache_lookup (snd (UpdateCurrency demo_listed (demo_aed\<lparr>Description := ''Dirham''\<rparr>)))
     ''currencies:all:50:0'' = None \<and>
   fst (DeleteCurrency demo_listed (ID demo_aed)) = Inr () \<and>
   cache_lookup (snd (DeleteCurrency demo_listed (ID demo_aed))) ''currencies:all:50:0'' = None"
proof -
  let ?c = "demo_aed\<lparr>Description := ''Dirham''\<rparr>"
  have nf: "True \<notin> set (take 3 (redis_faults demo_listed))"
    by (simp add: demo_listed_def demo_world_def)
  have before: "cache_lookup demo_listed ''currency:code:AED'' = Some ''{AED}''"
    "cache_lookup demo_listed ''currencies:all:50:0'' = Some ''[{AED}]''"
    by (simp_all add: cache_lookup_def demo_listed_def demo_world_def)
  have u: "fst (UpdateCurrency demo_listed ?c) =
      Inr (demo_aed\<lparr>Description := ''Dirham'', UpdatedAt := 1700000100\<rparr>)"
    by (simp add: UpdateCurrency_def Update_def gorm_Updates_def pg_update_def check_lengths_def
        assign_nonzero_def db_roundtrip_def emit_def uuid_Nil_def zero_time_def
        demo_listed_def demo_world_def demo_aed_def Let_def split_beta)
  have d: "fst (DeleteCurrency demo_listed (ID demo_aed)) = Inr ()"
    by (simp add: DeleteCurrency_def GetByID_def gorm_First_def Delete_def gorm_Delete_def
        db_roundtrip_def emit_def demo_listed_def demo_world_def demo_aed_def Let_def
        split_beta)
  have code: "Code ?c = ''AED''" by (simp add: demo_aed_def)
  have p: "prefix ''currencies:all:'' ''currencies:all:50:0''" by simp
  have uo: "UpdateCurrency demo_listed ?c =
      (Inr (demo_aed\<lparr>Description := ''Dirham'', UpdatedAt := 1700000100\<rparr>),
       snd (UpdateCurrency demo_listed ?c))"
    using u by (simp add: prod_eq_iff)
  have do: "DeleteCurrency demo_listed (ID demo_aed) =
      (Inr (), snd (DeleteCurrency demo_listed (ID demo_aed)))"
    using d by (simp add: prod_eq_iff)
  from writes_invalidate_when_cache_answers [OF nf, of ?c "ID demo_aed"] uo do code p
  have "cache_lookup (snd (UpdateCurrency demo_listed ?c)) ''currency:code:AED'' = None"
    "cache_lookup (snd (UpdateCurrency demo_listed ?c)) ''currencies:all:50:0'' = None"
    "cache_lookup (snd (DeleteCurrency demo_listed (ID demo_aed))) ''currencies:all:50:0'' = None"
    by (metis append_Nil append_Cons)+
  with nf before u d show ?thesis by simp
qed

text \<open>
  As the claim states it (after every successful write) it fails: with a Redis server
  that does not answer, the update succeeds and both keys are still served.
\<close>

theorem invalidation_is_best_effort_counterexample:
  "fst (UpdateCurrency demo_unreachable (demo_aed\<lparr>Description := ''Dirham''\<rparr>)) =
     Inr (demo_aed\<lparr>Description := ''Dirham'', UpdatedAt := 1700000100\<rparr>) \<and>
   cache_lookup (snd (UpdateCurrency demo_unreachable (demo_aed\<lparr>Description := ''Dirham''\<rparr>)))
     ''currency:code:AED'' = Some ''{AED}'' \<and>
   cache_lookup (snd (UpdateCurrency demo_unreachable (demo_aed\<lparr>Description := ''Dirham''\<rparr>)))
     ''currencies:all:50:0'' = Some ''[{AED}]''"
  by (simp add: UpdateCurrency_def Update_def gorm_Updates_def pg_update_def check_lengths_def
      assign_nonzero_def db_roundtrip_def emit_def invalidateCache_def redis_Del_def
      redis_Keys_def redis_roundtrip_def cache_lookup_def uuid_Nil_def zero_time_def
      demo_unreachable_def demo_listed_def demo_world_def demo_aed_def Let_def split_beta)




end
